theory Spec2Isabelle
  imports Complex_Main "HOL-Library.Sublist" "HOL-Library.AList"
begin

section \<open>Python values, errors and string primitives\<close>

text \<open>
  The catalog code is Python. Strings are modelled as \<open>string\<close> over the code points
  below 256, integers as \<open>int\<close>, and every exception the code can raise is a value of
  \<open>error\<close>, returned as \<open>Inl\<close>.
\<close>

datatype error =
    ValueError string
  | IndexError
  | KeyError string
  | AttributeError
  | TypeError
  | RuntimeError string
  | AssertionError
  | FileNotFoundError string

definition bind :: "error + 'a \<Rightarrow> ('a \<Rightarrow> error + 'b) \<Rightarrow> error + 'b" where
  "bind m f = (case m of Inl e \<Rightarrow> Inl e | Inr x \<Rightarrow> f x)"

text \<open>\<open>s.split(sep)\<close> for a non-empty separator: left to right, non-overlapping.\<close>

function py_split :: "string \<Rightarrow> string \<Rightarrow> string list" where
  "py_split sep [] = [[]]"
| "py_split sep (c # cs) =
     (if sep \<noteq> [] \<and> prefix sep (c # cs)
      then [] # py_split sep (drop (length sep) (c # cs))
      else (case py_split sep cs of w # ws \<Rightarrow> (c # w) # ws | [] \<Rightarrow> [[c]]))"
  by pat_completeness auto
termination
  by (relation "measure (\<lambda>(sep, s). length s)") (auto simp: neq_Nil_conv)

text \<open>\<open>sep.join(parts)\<close>.\<close>

fun py_join :: "string \<Rightarrow> string list \<Rightarrow> string" where
  "py_join sep [] = []"
| "py_join sep [p] = p"
| "py_join sep (p # q # ps) = p @ sep @ py_join sep (q # ps)"

text \<open>\<open>xs[i]\<close>: a negative index counts from the end, out of range raises IndexError.\<close>

definition py_index :: "'a list \<Rightarrow> int \<Rightarrow> error + 'a" where
  "py_index xs i =
     (let j = (if i < 0 then i + int (length xs) else i)
      in if j < 0 \<or> int (length xs) \<le> j then Inl IndexError else Inr (xs ! nat j))"

text \<open>The slices \<open>s[-k:]\<close>, \<open>s[k:]\<close> and \<open>s[:k]\<close> for a literal \<open>k \<ge> 0\<close>; slices never raise.\<close>

definition slice_last :: "nat \<Rightarrow> 'a list \<Rightarrow> 'a list" where
  "slice_last k s = (if k = 0 then s else drop (length s - k) s)"

definition slice_from :: "nat \<Rightarrow> 'a list \<Rightarrow> 'a list" where
  "slice_from k s = drop k s"

definition slice_to :: "nat \<Rightarrow> 'a list \<Rightarrow> 'a list" where
  "slice_to k s = take k s"

text \<open>Whitespace as \<open>str.isspace\<close> sees it below code point 256, and \<open>s.strip()\<close>.\<close>

definition is_space :: "char \<Rightarrow> bool" where
  "is_space c =
     (let n = (of_char c :: nat)
      in (9 \<le> n \<and> n \<le> 13) \<or> (28 \<le> n \<and> n \<le> 32) \<or> n = 133 \<or> n = 160)"

definition strip :: "string \<Rightarrow> string" where
  "strip s = rev (dropWhile is_space (rev (dropWhile is_space s)))"

definition is_digit :: "char \<Rightarrow> bool" where
  "is_digit c = (let n = (of_char c :: nat) in 48 \<le> n \<and> n \<le> 57)"

definition digit_val :: "char \<Rightarrow> nat" where
  "digit_val c = of_char c - 48"

text \<open>
  The digit part of a numeric literal: digits, with single underscores allowed between
  two digits. The result is the digits without the underscores.
\<close>

fun digit_part :: "string \<Rightarrow> string option" where
  "digit_part [] = None"
| "digit_part [c] = (if is_digit c then Some [c] else None)"
| "digit_part (c # d # cs) =
     (if \<not> is_digit c then None
      else if d = CHR ''_'' then map_option (Cons c) (digit_part cs)
      else map_option (Cons c) (digit_part (d # cs)))"

definition nat_of_digits :: "string \<Rightarrow> nat" where
  "nat_of_digits ds = foldl (\<lambda>a c. 10 * a + digit_val c) 0 ds"

text \<open>\<open>int(s)\<close> in base ten: surrounding whitespace, an optional sign, a digit part.\<close>

definition py_int :: "string \<Rightarrow> error + int" where
  "py_int s =
     (let t = strip s;
          neg = (case t of [] \<Rightarrow> False | c # _ \<Rightarrow> c = CHR ''-'');
          body = (case t of [] \<Rightarrow> []
                  | c # r \<Rightarrow> if c = CHR ''-'' \<or> c = CHR ''+'' then r else t)
      in case digit_part body of
           None \<Rightarrow> Inl (ValueError ''invalid literal for int() with base 10'')
         | Some ds \<Rightarrow> Inr (if neg then - int (nat_of_digits ds) else int (nat_of_digits ds)))"

text \<open>\<open>str(n)\<close> for an integer, and the format fields \<open>{:d}\<close> and \<open>{:04d}\<close>.\<close>

fun digits_of :: "nat \<Rightarrow> string" where
  "digits_of n =
     (if n < 10 then [char_of (48 + n)]
      else digits_of (n div 10) @ [char_of (48 + n mod 10)])"

declare digits_of.simps [simp del]

definition fmt_d :: "int \<Rightarrow> string" where
  "fmt_d i = (if i < 0 then CHR ''-'' # digits_of (nat (- i)) else digits_of (nat i))"

definition zero_pad :: "nat \<Rightarrow> string \<Rightarrow> string" where
  "zero_pad w ds = replicate (w - length ds) (CHR ''0'') @ ds"

definition fmt_04d :: "int \<Rightarrow> string" where
  "fmt_04d i =
     (if i < 0 then CHR ''-'' # zero_pad 3 (digits_of (nat (- i)))
      else zero_pad 4 (digits_of (nat i)))"

section \<open>Identifier codec (class RITCatalogHelper)\<close>

text \<open>
  Modelled from the spec: \<open>utils.rit_catalog_info\<close>, which holds the two templates
  \<open>metadata_file_fmts\<close>, is not among the source files. The templates are those of
  section 6 of the specification (zero-padded 4-digit index, integer resolution, integer
  id value), with the \<open>:\<close> separators of the names that the docstrings of
  \<open>metadata_filename_from_simname\<close> and \<open>waveform_filename_from_simname\<close> give
  (\<open>RIT:BBH:1109-n100-id1\<close>, \<open>RIT:eBBH:1843-n100-ecc_Metadata.txt\<close>) and that the code's
  own \<open>split(":")\<close> relies on. \<open>metadata_file_fmt0 idx res id_val\<close> is
  \<open>metadata_file_fmts[0].format(idx, res, id_val)\<close> and \<open>metadata_file_fmt1 idx res\<close> is
  \<open>metadata_file_fmts[1].format(idx, res)\<close>.
\<close>

definition metadata_file_fmt0 :: "int \<Rightarrow> int \<Rightarrow> int \<Rightarrow> string" where
  "metadata_file_fmt0 idx res id_val =
     ''RIT:BBH:'' @ fmt_04d idx @ ''-n'' @ fmt_d res @ ''-id'' @ fmt_d id_val @ ''_Metadata.txt''"

definition metadata_file_fmt1 :: "int \<Rightarrow> int \<Rightarrow> string" where
  "metadata_file_fmt1 idx res =
     ''RIT:eBBH:'' @ fmt_04d idx @ ''-n'' @ fmt_d res @ ''-ecc_Metadata.txt''"

definition metadata_filenames :: "int \<Rightarrow> int \<Rightarrow> int \<Rightarrow> string list" where
  "metadata_filenames idx res id_val =
     [metadata_file_fmt0 idx res id_val, metadata_file_fmt1 idx res]"

text \<open>
  \<open>sim_info_from_metadata_filename\<close>: the index and the resolution are parsed outside
  the \<open>try\<close>, so a failure there is raised; any exception while parsing the id value is
  caught and gives \<open>-1\<close>.
\<close>

definition sim_info_from_metadata_filename :: "string \<Rightarrow> error + (int \<times> int \<times> int)" where
  "sim_info_from_metadata_filename file_name =
     bind (py_index (py_split ''-'' file_name) 0) (\<lambda>p0.
     bind (py_int (slice_last 4 p0)) (\<lambda>sim_number.
     bind (py_index (py_split ''-'' file_name) 1) (\<lambda>p1.
     bind (py_int (slice_from 1 p1)) (\<lambda>res_number.
       let id_val =
         (case bind (py_index (py_split ''-'' file_name) 2) (\<lambda>p2.
               bind (py_index (py_split ''_'' p2) 0) (\<lambda>q.
               py_int (slice_from 2 q)))
          of Inl _ \<Rightarrow> - 1 | Inr v \<Rightarrow> v)
       in Inr (sim_number, res_number, id_val)))))"

section \<open>Metadata text parser\<close>

subsection \<open>Floats, record values and dictionaries\<close>

text \<open>
  A Python float is modelled as an exact rational, or one of the special values that
  \<open>float()\<close> also reads. Rounding to the nearest double, overflow and underflow are not
  modelled; halving and doubling, the only arithmetic of the parser, are exact.
\<close>

datatype pyfloat = Fin rat | PosInf | NegInf | NaN

fun half :: "pyfloat \<Rightarrow> pyfloat" where
  "half (Fin r) = Fin (r / 2)"
| "half x = x"

fun twice :: "pyfloat \<Rightarrow> pyfloat" where
  "twice (Fin r) = Fin (r * 2)"
| "twice x = x"

fun is_zero :: "pyfloat \<Rightarrow> bool" where
  "is_zero (Fin r) = (r = 0)"
| "is_zero x = False"

text \<open>A value of the parsed record: a float, or the trimmed text.\<close>

datatype pyval = Num pyfloat | Str string

text \<open>
  A \<open>dict\<close> keeps its keys in insertion order: an association list with distinct
  keys. \<open>d[k] = v\<close> is \<open>AList.update k v d\<close>, \<open>k in d\<close> is \<open>map_of d k \<noteq> None\<close> and
  \<open>len(d)\<close> is the length of the list.
\<close>

type_synonym dict = "(string \<times> pyval) list"

definition dict_get :: "dict \<Rightarrow> string \<Rightarrow> error + pyval" where
  "dict_get d k = (case map_of d k of None \<Rightarrow> Inl (KeyError k) | Some v \<Rightarrow> Inr v)"

definition lower_char :: "char \<Rightarrow> char" where
  "lower_char c =
     (let n = (of_char c :: nat)
      in if (65 \<le> n \<and> n \<le> 90) \<or> (192 \<le> n \<and> n \<le> 222 \<and> n \<noteq> 215)
         then char_of (n + 32) else c)"

definition lower :: "string \<Rightarrow> string" where
  "lower s = map lower_char s"

definition is_alpha :: "char \<Rightarrow> bool" where
  "is_alpha c =
     (let n = (of_char c :: nat)
      in (65 \<le> n \<and> n \<le> 90) \<or> (97 \<le> n \<and> n \<le> 122) \<or> n = 170 \<or> n = 181 \<or> n = 186
         \<or> (192 \<le> n \<and> n \<le> 214) \<or> (216 \<le> n \<and> n \<le> 246) \<or> 248 \<le> n)"

subsection \<open>\<open>float(s)\<close>\<close>

definition split_sign :: "string \<Rightarrow> bool \<times> string" where
  "split_sign t =
     (case t of [] \<Rightarrow> (False, [])
      | c # r \<Rightarrow> if c = CHR ''-'' then (True, r) else if c = CHR ''+'' then (False, r)
                 else (False, t))"

definition signed_digits :: "string \<Rightarrow> int option" where
  "signed_digits t =
     (case split_sign t of (neg, b) \<Rightarrow>
        map_option (\<lambda>ds. if neg then - int (nat_of_digits ds) else int (nat_of_digits ds))
          (digit_part b))"

text \<open>
  The mantissa \<open>[digits] . digits | digits [.]\<close>, as the pair of its integer and
  fraction digits.
\<close>

definition mantissa :: "string \<Rightarrow> (string \<times> string) option" where
  "mantissa m =
     (let ip = takeWhile (\<lambda>c. c \<noteq> CHR ''.'') m;
          fr = dropWhile (\<lambda>c. c \<noteq> CHR ''.'') m
      in if fr = [] then map_option (\<lambda>ds. (ds, [])) (digit_part ip)
         else if ip = [] then map_option (\<lambda>fs. ([], fs)) (digit_part (tl fr))
         else if tl fr = [] then map_option (\<lambda>ds. (ds, [])) (digit_part ip)
         else (case (digit_part ip, digit_part (tl fr)) of
                 (Some ds, Some fs) \<Rightarrow> Some (ds, fs)
               | _ \<Rightarrow> None))"

definition is_exp_mark :: "char \<Rightarrow> bool" where
  "is_exp_mark c = (c = CHR ''e'' \<or> c = CHR ''E'')"

definition float_number :: "string \<Rightarrow> rat option" where
  "float_number b =
     (let m = takeWhile (\<lambda>c. \<not> is_exp_mark c) b;
          r = dropWhile (\<lambda>c. \<not> is_exp_mark c) b;
          ex = (if r = [] then Some 0 else signed_digits (tl r))
      in case (mantissa m, ex) of
           (Some (ds, fs), Some e) \<Rightarrow>
             Some (of_nat (nat_of_digits (ds @ fs)) / 10 ^ length fs
                   * (if 0 \<le> e then 10 ^ nat e else 1 / 10 ^ nat (- e)))
         | _ \<Rightarrow> None)"

definition py_float :: "string \<Rightarrow> pyfloat option" where
  "py_float s =
     (case split_sign (strip s) of (neg, b) \<Rightarrow>
        if lower b = ''inf'' \<or> lower b = ''infinity'' then Some (if neg then NegInf else PosInf)
        else if lower b = ''nan'' then Some NaN
        else map_option (\<lambda>r. Fin (if neg then - r else r)) (float_number b))"

subsection \<open>\<open>parse_metadata_txt\<close>\<close>

definition derived_fields :: "string list" where
  "derived_fields =
     [''freq-start-22'', ''freq-start-22-Hz-1Msun'', ''number-of-cycles-22'',
      ''number-of-orbits'', ''peak-omega-22'', ''peak-ampl-22'', ''Msun'', ''eccentricity'']"

text \<open>\<open>nxt = [s for s in raw if len(s) > 0 and s[0].isalpha()]\<close>\<close>

definition filter_lines :: "string list \<Rightarrow> string list" where
  "filter_lines raw = filter (\<lambda>s. case s of [] \<Rightarrow> False | c # _ \<Rightarrow> is_alpha c) raw"

text \<open>
  With \<open>kv = s.split("=")\<close>: the key \<open>kv[0].strip()\<close> (a split is never empty) and the
  value text \<open>"=".join(kv[1:]).strip()\<close>.
\<close>

definition key_of :: "string \<Rightarrow> string" where
  "key_of s = strip (case py_split ''='' s of [] \<Rightarrow> [] | k # _ \<Rightarrow> k)"

definition value_of :: "string \<Rightarrow> string" where
  "value_of s = strip (py_join ''='' (slice_from 1 (py_split ''='' s)))"

text \<open>
  The \<open>except\<close> branch: the loop over the derived fields sets the key to \<open>0.0\<close> when it
  is a derived field not yet in \<open>opts\<close>, and reports whether it did.
\<close>

fun set_reasonable_value :: "string \<Rightarrow> string list \<Rightarrow> dict \<Rightarrow> dict \<times> bool" where
  "set_reasonable_value key [] opts = (opts, False)"
| "set_reasonable_value key (xy # xys) opts =
     (if key = xy \<and> map_of opts xy = None then (AList.update xy (Num (Fin 0)) opts, True)
      else set_reasonable_value key xys opts)"

definition parse_line :: "dict \<Rightarrow> string \<Rightarrow> dict" where
  "parse_line opts s =
     (case py_float (value_of s) of
        Some x \<Rightarrow> AList.update (key_of s) (Num x) opts
      | None \<Rightarrow>
          (case set_reasonable_value (key_of s) derived_fields opts of
             (opts', reasonable_value_set) \<Rightarrow>
               if reasonable_value_set then opts'
               else AList.update (key_of s) (Str (value_of s)) opts'))"

definition parse_lines :: "string list \<Rightarrow> dict" where
  "parse_lines nxt = foldl parse_line [] nxt"

text \<open>
  The test \<open>opts["system-type"].lower() == "aligned" or ... == "nonspinning"\<close>: a missing
  key raises KeyError and a float has no \<open>lower\<close>.
\<close>

definition system_type_aligned :: "dict \<Rightarrow> error + bool" where
  "system_type_aligned opts =
     bind (dict_get opts ''system-type'') (\<lambda>v.
       case v of
         Num _ \<Rightarrow> Inl AttributeError
       | Str t \<Rightarrow> Inr (lower t = ''aligned'' \<or> lower t = ''nonspinning''))"

text \<open>
  One spin block: \<open>if z in opts: for xy in [x, y]: if xy not in opts and (...): opts[xy] = 0.0\<close>.
  The system type is only looked at when \<open>xy\<close> is missing.
\<close>

fun zero_missing_spins :: "string list \<Rightarrow> dict \<Rightarrow> error + dict" where
  "zero_missing_spins [] opts = Inr opts"
| "zero_missing_spins (xy # xys) opts =
     (if map_of opts xy = None
      then bind (system_type_aligned opts) (\<lambda>aligned.
             zero_missing_spins xys (if aligned then AList.update xy (Num (Fin 0)) opts else opts))
      else zero_missing_spins xys opts)"

definition spin_block :: "string \<Rightarrow> string list \<Rightarrow> dict \<Rightarrow> error + dict" where
  "spin_block z xys opts = (if map_of opts z \<noteq> None then zero_missing_spins xys opts else Inr opts)"

definition spin_blocks :: "(string \<times> string list) list" where
  "spin_blocks =
     [(''relaxed-chi1z'', [''relaxed-chi1x'', ''relaxed-chi1y'']),
      (''relaxed-chi2z'', [''relaxed-chi2x'', ''relaxed-chi2y'']),
      (''initial-bh-chi1z'', [''initial-bh-chi1x'', ''initial-bh-chi1y'']),
      (''initial-bh-chi2z'', [''initial-bh-chi2x'', ''initial-bh-chi2y''])]"

fun spin_completion :: "(string \<times> string list) list \<Rightarrow> dict \<Rightarrow> error + dict" where
  "spin_completion [] opts = Inr opts"
| "spin_completion ((z, xys) # bs) opts = bind (spin_block z xys opts) (spin_completion bs)"

text \<open>\<open>v / 2.0\<close>, \<open>v * 2.0\<close> and \<open>v == 0.0\<close> on a record value; text cannot be halved or doubled.\<close>

definition div2 :: "pyval \<Rightarrow> error + pyval" where
  "div2 v = (case v of Num x \<Rightarrow> Inr (Num (half x)) | Str _ \<Rightarrow> Inl TypeError)"

definition mul2 :: "pyval \<Rightarrow> error + pyval" where
  "mul2 v = (case v of Num x \<Rightarrow> Inr (Num (twice x)) | Str _ \<Rightarrow> Inl TypeError)"

definition eq_zero :: "pyval \<Rightarrow> bool" where
  "eq_zero v = (case v of Num x \<Rightarrow> is_zero x | Str _ \<Rightarrow> False)"

text \<open>
  \<open>derive_from src f tgt\<close> is one of the two blocks of lines 494 to 504: when \<open>src\<close> is
  in \<open>opts\<close>, \<open>tgt\<close> is set to \<open>f(opts[src])\<close> if it is missing, and then again if it is zero.
\<close>

definition derive_from ::
  "string \<Rightarrow> (pyval \<Rightarrow> error + pyval) \<Rightarrow> string \<Rightarrow> dict \<Rightarrow> error + dict" where
  "derive_from src f tgt opts =
     (if map_of opts src \<noteq> None then
        bind (if map_of opts tgt = None
              then bind (dict_get opts src) (\<lambda>v. bind (f v) (\<lambda>w. Inr (AList.update tgt w opts)))
              else Inr opts) (\<lambda>opts1.
        bind (dict_get opts1 tgt) (\<lambda>t.
          if eq_zero t
          then bind (dict_get opts1 src) (\<lambda>v. bind (f v) (\<lambda>w. Inr (AList.update tgt w opts1)))
          else Inr opts1))
      else Inr opts)"

definition cycles_to_orbits :: "dict \<Rightarrow> error + dict" where
  "cycles_to_orbits = derive_from ''number-of-cycles-22'' div2 ''number-of-orbits''"

definition orbits_to_cycles :: "dict \<Rightarrow> error + dict" where
  "orbits_to_cycles = derive_from ''number-of-orbits'' mul2 ''number-of-cycles-22''"

text \<open>\<open>for xy in derived_fields: if xy not in opts: opts[xy] = 0.0\<close>\<close>

fun default_derived :: "string list \<Rightarrow> dict \<Rightarrow> dict" where
  "default_derived [] opts = opts"
| "default_derived (xy # xys) opts =
     default_derived xys (if map_of opts xy = None then AList.update xy (Num (Fin 0)) opts else opts)"

definition parse_metadata_txt :: "string list \<Rightarrow> error + (string list \<times> dict)" where
  "parse_metadata_txt raw =
     (let nxt = filter_lines raw
      in bind (spin_completion spin_blocks (parse_lines nxt)) (\<lambda>opts1.
         bind (cycles_to_orbits opts1) (\<lambda>opts2.
         bind (orbits_to_cycles opts2) (\<lambda>opts3.
         Inr (nxt, default_derived derived_fields opts3)))))"

subsection \<open>What the raw text supplies for a key\<close>

text \<open>
  The lines of \<open>nxt\<close> that carry the key \<open>k\<close>, in order. The key is \<^emph>\<open>overwritten by text\<close>
  when it occurs on two lines or more and the value of its last line is not a float; it is
  \<^emph>\<open>unsupplied\<close> when it is absent, or occurs once with a value that is not a float.
\<close>

definition lines_for :: "string \<Rightarrow> string list \<Rightarrow> string list" where
  "lines_for k nxt = filter (\<lambda>s. key_of s = k) nxt"

definition text_overwrites :: "string \<Rightarrow> string list \<Rightarrow> bool" where
  "text_overwrites k nxt =
     (case rev (lines_for k nxt) of
        s # _ # _ \<Rightarrow> py_float (value_of s) = None
      | _ \<Rightarrow> False)"

definition unsupplied :: "string \<Rightarrow> string list \<Rightarrow> bool" where
  "unsupplied k nxt =
     (case lines_for k nxt of
        [] \<Rightarrow> True
      | [s] \<Rightarrow> py_float (value_of s) = None
      | _ \<Rightarrow> False)"

text \<open>The value text of the last line that carries the key, if any.\<close>

definition last_value :: "string \<Rightarrow> string list \<Rightarrow> string option" where
  "last_value k nxt = (case rev (lines_for k nxt) of [] \<Rightarrow> None | s # _ \<Rightarrow> Some (value_of s))"

text \<open>The value that the main loop leaves for a key, read off the lines that carry it.\<close>

definition loop_value :: "string \<Rightarrow> string list \<Rightarrow> pyval option" where
  "loop_value k nxt =
     (case rev (lines_for k nxt) of
        [] \<Rightarrow> None
      | s # earlier \<Rightarrow>
          Some (case py_float (value_of s) of
                  Some x \<Rightarrow> Num x
                | None \<Rightarrow> if k \<in> set derived_fields \<and> earlier = []
                           then Num (Fin 0) else Str (value_of s)))"

text \<open>
  The text \<^emph>\<open>supplies\<close> the float \<open>x\<close> for a key when the value of the last line that
  carries the key reads as \<open>x\<close>; it \<^emph>\<open>omits or zeroes\<close> a key that is on no line, or
  for which it supplies \<open>0.0\<close>.
\<close>

definition supplies :: "string \<Rightarrow> string list \<Rightarrow> pyfloat \<Rightarrow> bool" where
  "supplies k nxt x = (case last_value k nxt of None \<Rightarrow> False | Some t \<Rightarrow> py_float t = Some x)"

definition omits_or_zeroes :: "string \<Rightarrow> string list \<Rightarrow> bool" where
  "omits_or_zeroes k nxt = (lines_for k nxt = [] \<or> supplies k nxt (Fin 0))"

text \<open>
  The two fields of the orbit/cycle cross-derivation are partners of each other; every other
  key is its own partner.
\<close>

definition partner :: "string \<Rightarrow> string" where
  "partner k =
     (if k = ''number-of-cycles-22'' then ''number-of-orbits''
      else if k = ''number-of-orbits'' then ''number-of-cycles-22'' else k)"

section \<open>Cache directory, remote archive and catalog table\<close>

subsection \<open>The helper's attributes and the world it acts on\<close>

text \<open>
  A row of the catalog table is a record of the parser with the link and location fields
  added; the table is the list of its rows (\<open>len\<close> is the length, \<open>pd.concat\<close> appends).
\<close>

type_synonym table = "dict list"

text \<open>
  The attributes that \<open>RITCatalogHelper.__init__\<close> reads from \<open>utils.rit_catalog_info\<close>,
  which is not among the source files, are parameters: the directories, the URLs, the
  candidate resolutions, the largest id value and the two templates \<open>psi4_file_fmts\<close>.
\<close>

record helper =
  metadata_dir :: string
  metadata_url :: string
  data_url :: string
  data_dir :: string
  possible_res :: "int list"
  max_id_val :: int
  use_cache :: bool
  psi4_file_fmt0 :: "int \<Rightarrow> int \<Rightarrow> int \<Rightarrow> string"
  psi4_file_fmt1 :: "int \<Rightarrow> int \<Rightarrow> string"

text \<open>
  Network activity is recorded: \<open>Probe url\<close> for a call of \<open>utils.url_exists\<close>, \<open>Fetch url\<close>
  for a download.
\<close>

datatype event = Probe string | Fetch string

text \<open>
  The state: the files on disk by full path, in the order in which \<open>glob\<close> lists them,
  each with its lines; the remote files by URL; the table in \<open>metadata.csv\<close> (\<open>None\<close>
  when the file is missing or empty); the attribute \<open>self.metadata\<close>; the network log.
\<close>

record state =
  files :: "(string \<times> string list) list"
  web :: "(string \<times> string list) list"
  csv :: "table option"
  metadata :: table
  net_log :: "event list"

text \<open>\<open>dir / name\<close> for a relative name, and \<open>os.path.basename\<close>.\<close>

definition path_join :: "string \<Rightarrow> string \<Rightarrow> string" where
  "path_join d n = d @ ''/'' @ n"

definition basename :: "string \<Rightarrow> string" where
  "basename p = (case rev (py_split ''/'' p) of [] \<Rightarrow> [] | n # _ \<Rightarrow> n)"

text \<open>\<open>os.path.exists(p)\<close> and \<open>os.path.exists(p) and os.path.getsize(p) > 0\<close>.\<close>

definition path_exists :: "state \<Rightarrow> string \<Rightarrow> bool" where
  "path_exists s p = (map_of (files s) p \<noteq> None)"

definition nonempty_file :: "state \<Rightarrow> string \<Rightarrow> bool" where
  "nonempty_file s p = (case map_of (files s) p of None \<Rightarrow> False | Some ls \<Rightarrow> ls \<noteq> [])"

text \<open>
  \<open>glob.glob(pre + "*")\<close>: the paths that start with \<open>pre\<close> and continue inside the same
  directory. The prefixes used here have no character that is special to \<open>glob\<close>.
\<close>

definition glob_star :: "state \<Rightarrow> string \<Rightarrow> string list" where
  "glob_star s pre =
     filter (\<lambda>p. prefix pre p \<and> CHR ''/'' \<notin> set (drop (length pre) p)) (map fst (files s))"

text \<open>\<open>sub in s\<close> for strings.\<close>

fun contains :: "string \<Rightarrow> string \<Rightarrow> bool" where
  "contains sub [] = (sub = [])"
| "contains sub (c # cs) = (prefix sub (c # cs) \<or> contains sub cs)"

subsection \<open>Names derived from a simulation name\<close>

text \<open>
  \<open>simtags\<close>: each template up to its first \<open>-\<close>, formatted with the index.
\<close>

definition simtags :: "int \<Rightarrow> string list" where
  "simtags idx = [''RIT:BBH:'' @ fmt_04d idx, ''RIT:eBBH:'' @ fmt_04d idx]"

definition simname_from_metadata_filename :: "string \<Rightarrow> string" where
  "simname_from_metadata_filename filename =
     (case py_split ''_Meta'' filename of [] \<Rightarrow> [] | n # _ \<Rightarrow> n)"

text \<open>
  The three \<open>..._filename_from_simname\<close> functions start alike:
  \<open>txt = sim_name.split(":")[-1]\<close>, \<open>idx = int(txt[:4])\<close>, \<open>res = int(txt.split("-")[1][1:])\<close>.
  \<open>last_char_int txt\<close> is \<open>int(txt[-1])\<close>.
\<close>

definition name_fields :: "string \<Rightarrow> error + (string \<times> int \<times> int)" where
  "name_fields sim_name =
     bind (py_index (py_split '':'' sim_name) (- 1)) (\<lambda>txt.
     bind (py_int (slice_to 4 txt)) (\<lambda>idx.
     bind (py_index (py_split ''-'' txt) 1) (\<lambda>p.
     bind (py_int (slice_from 1 p)) (\<lambda>res.
     Inr (txt, idx, res)))))"

definition last_char_int :: "string \<Rightarrow> error + int" where
  "last_char_int txt = bind (py_index txt (- 1)) (\<lambda>c. py_int [c])"

definition metadata_filename_from_simname :: "string \<Rightarrow> error + string" where
  "metadata_filename_from_simname sim_name =
     bind (name_fields sim_name) (\<lambda>(txt, idx, res).
       if \<not> contains ''eBBH'' sim_name
       then bind (last_char_int txt) (\<lambda>id_val. Inr (metadata_file_fmt0 idx res id_val))
       else Inr (metadata_file_fmt1 idx res))"

definition psi4_filename_from_simname :: "helper \<Rightarrow> string \<Rightarrow> error + string" where
  "psi4_filename_from_simname h sim_name =
     bind (name_fields sim_name) (\<lambda>(txt, idx, res).
       if \<not> contains ''eBBH'' sim_name
       then bind (last_char_int txt) (\<lambda>id_val. Inr (psi4_file_fmt0 h idx res id_val))
       else Inr (psi4_file_fmt1 h idx res))"

text \<open>
  \<open>waveform_filename_from_simname\<close>: any exception in \<open>int(txt[-1])\<close> selects the second
  template; the name is then rebuilt from the pieces of the metadata file name.
\<close>

definition waveform_filename_from_simname :: "string \<Rightarrow> error + string" where
  "waveform_filename_from_simname sim_name =
     bind (name_fields sim_name) (\<lambda>(txt, idx, res).
       let mf = (case last_char_int txt of
                   Inr id_val \<Rightarrow> metadata_file_fmt0 idx res id_val
                 | Inl _ \<Rightarrow> metadata_file_fmt1 idx res);
           parts = py_split '':'' mf
       in bind (py_index parts 0) (\<lambda>p0.
          bind (py_index parts 1) (\<lambda>p1.
          bind (py_index parts 2) (\<lambda>p2.
          bind (py_index (py_split ''_'' p2) 0) (\<lambda>q.
          bind (py_index (py_split ''-'' q) 0) (\<lambda>a.
          bind (py_index (py_split ''-'' q) 1) (\<lambda>b.
          Inr (''ExtrapStrain_'' @ p0 @ ''-'' @ p1 @ ''-'' @ a @ ''-'' @ b @ ''.h5''))))))))"

subsection \<open>Lookups in the cache directory\<close>

text \<open>The remote address of a metadata file: \<open>self.metadata_url + "/" + file_name\<close>.\<close>

definition url_of :: "helper \<Rightarrow> string \<Rightarrow> string" where
  "url_of h file_name = metadata_url h @ ''/'' @ file_name"


text \<open>The files that match one tag: \<open>glob.glob(str(self.metadata_dir / sim_tag) + "*")\<close>.\<close>

definition poss_files :: "helper \<Rightarrow> state \<Rightarrow> string \<Rightarrow> string list" where
  "poss_files h s sim_tag = glob_star s (path_join (metadata_dir h) sim_tag)"

text \<open>
  \<open>metadata_filename_from_cache\<close>: the loop has no \<open>break\<close> and no \<open>return\<close>; every tag
  with a match overwrites \<open>file_name\<close>.
\<close>

definition metadata_filename_from_cache :: "helper \<Rightarrow> state \<Rightarrow> int \<Rightarrow> string" where
  "metadata_filename_from_cache h s idx =
     foldl (\<lambda>file_name sim_tag.
              case poss_files h s sim_tag of [] \<Rightarrow> file_name | p # _ \<Rightarrow> p)
       [] (simtags idx)"

text \<open>\<open>simname_from_cache\<close>: returns at the first tag with a match.\<close>

fun simname_scan :: "helper \<Rightarrow> state \<Rightarrow> string list \<Rightarrow> string" where
  "simname_scan h s [] = []"
| "simname_scan h s (sim_tag # tags) =
     (case poss_files h s sim_tag of
        [] \<Rightarrow> simname_scan h s tags
      | file_path # _ \<Rightarrow> simname_from_metadata_filename (basename file_path))"

definition simname_from_cache :: "helper \<Rightarrow> state \<Rightarrow> int \<Rightarrow> string" where
  "simname_from_cache h s idx = simname_scan h s (simtags idx)"

definition psi4_filename_from_cache :: "helper \<Rightarrow> state \<Rightarrow> int \<Rightarrow> error + string" where
  "psi4_filename_from_cache h s idx =
     psi4_filename_from_simname h
       (simname_from_metadata_filename (metadata_filename_from_cache h s idx))"

definition waveform_filename_from_cache :: "helper \<Rightarrow> state \<Rightarrow> int \<Rightarrow> error + string" where
  "waveform_filename_from_cache h s idx =
     waveform_filename_from_simname
       (simname_from_metadata_filename (metadata_filename_from_cache h s idx))"

definition metadata_from_file :: "state \<Rightarrow> string \<Rightarrow> error + (string list \<times> dict)" where
  "metadata_from_file s file_path =
     (case map_of (files s) file_path of
        None \<Rightarrow> Inl (FileNotFoundError file_path)
      | Some lines \<Rightarrow> parse_metadata_txt lines)"

text \<open>
  The seven link and location fields, set on the parsed record in the order of the source.
  The two location names are computed from the simulation name and may raise.
\<close>

definition add_links ::
  "helper \<Rightarrow> string \<Rightarrow> string \<Rightarrow> string \<Rightarrow> string \<Rightarrow> string \<Rightarrow> dict \<Rightarrow> error + dict" where
  "add_links h file_name file_path_web location psi4_file_name wf_file_name metadata_dict =
     (let sim = simname_from_metadata_filename file_name;
          d1 = AList.update ''simulation_name'' (Str sim) metadata_dict;
          d2 = AList.update ''metadata_link'' (Str file_path_web) d1;
          d3 = AList.update ''metadata_location'' (Str location) d2;
          d4 = AList.update ''psi4_data_link'' (Str (data_url h @ ''/'' @ psi4_file_name)) d3
      in bind (psi4_filename_from_simname h sim) (\<lambda>pn.
         let d5 = AList.update ''psi4_data_location'' (Str (path_join (data_dir h) pn)) d4;
             d6 = AList.update ''waveform_data_link'' (Str (data_url h @ ''/'' @ wf_file_name)) d5
         in bind (waveform_filename_from_simname sim) (\<lambda>wn.
            Inr (AList.update ''waveform_data_location'' (Str (path_join (data_dir h) wn)) d6))))"

text \<open>\<open>metadata_from_cache\<close>: the table with the one row of the first tag that has a file.\<close>

fun metadata_from_cache_scan :: "helper \<Rightarrow> state \<Rightarrow> int \<Rightarrow> string list \<Rightarrow> error + table" where
  "metadata_from_cache_scan h s idx [] = Inr []"
| "metadata_from_cache_scan h s idx (sim_tag # tags) =
     (case poss_files h s sim_tag of
        [] \<Rightarrow> metadata_from_cache_scan h s idx tags
      | file_path # _ \<Rightarrow>
          let file_name = basename file_path;
              file_path_web = url_of h file_name
          in bind (psi4_filename_from_cache h s idx) (\<lambda>psi4_file_name.
             bind (waveform_filename_from_cache h s idx) (\<lambda>wf_file_name.
             bind (metadata_from_file s file_path) (\<lambda>(_, metadata_dict).
               if 0 < length metadata_dict
               then bind (add_links h file_name file_path_web file_path
                            psi4_file_name wf_file_name metadata_dict) (\<lambda>row. Inr [row])
               else metadata_from_cache_scan h s idx tags))))"

definition metadata_from_cache :: "helper \<Rightarrow> state \<Rightarrow> int \<Rightarrow> error + table" where
  "metadata_from_cache h s idx = metadata_from_cache_scan h s idx (simtags idx)"

section \<open>Remote fetch, crawl and load\<close>

subsection \<open>The downloader primitives\<close>

text \<open>
  Modelled from the spec: \<open>utils.url_exists\<close> and \<open>utils.download_file\<close> are not among
  the source files. The existence check answers whether the remote file is there; the
  download stores the remote lines under the local path. Both are network activity.
\<close>

definition url_exists :: "state \<Rightarrow> string \<Rightarrow> bool \<times> state" where
  "url_exists s url = (map_of (web s) url \<noteq> None, s\<lparr>net_log := net_log s @ [Probe url]\<rparr>)"

definition download_file :: "state \<Rightarrow> string \<Rightarrow> string \<Rightarrow> error + state" where
  "download_file s link save_to =
     (case map_of (web s) link of
        None \<Rightarrow> Inl (RuntimeError (''could not download '' @ link))
      | Some lines \<Rightarrow>
          Inr (s\<lparr>files := AList.update save_to lines (files s),
                 net_log := net_log s @ [Fetch link]\<rparr>))"

text \<open>\<open>metadata_from_link(link, save_to=mf)\<close>: download, then parse the saved file.\<close>

definition metadata_from_link :: "state \<Rightarrow> string \<Rightarrow> string \<Rightarrow> error + (dict \<times> state)" where
  "metadata_from_link s link save_to =
     bind (download_file s link save_to) (\<lambda>s'.
     bind (metadata_from_file s' save_to) (\<lambda>(_, metadata_dict). Inr (metadata_dict, s')))"

subsection \<open>\<open>download_metadata\<close>\<close>

text \<open>
  One turn of the loop over the two possible file names, in the three blocks of the
  source. \<open>read_cached\<close> is the block under \<open>if self.use_cache\<close>. \<open>fetch_if_empty\<close> is
  the block under \<open>if len(metadata_dict) == 0\<close>; its flag is false where the source says
  \<open>continue\<close>. \<open>complete_record\<close> computes the names of the payload files and, for a
  non-empty dictionary, adds the links and ends the loop.
\<close>

definition read_cached :: "helper \<Rightarrow> state \<Rightarrow> string \<Rightarrow> dict \<Rightarrow> error + dict" where
  "read_cached h s mf metadata_dict =
     (if use_cache h \<and> nonempty_file s mf
      then bind (metadata_from_file s mf) (\<lambda>(_, d). Inr d)
      else Inr metadata_dict)"

definition fetch_if_empty ::
  "state \<Rightarrow> string \<Rightarrow> string \<Rightarrow> dict \<Rightarrow> error + (bool \<times> dict \<times> state)" where
  "fetch_if_empty s file_path_web mf metadata_dict =
     (if length metadata_dict = 0
      then (case url_exists s file_path_web of (on_web2, s2) \<Rightarrow>
              if on_web2
              then bind (metadata_from_link s2 file_path_web mf) (\<lambda>(d, s3). Inr (True, d, s3))
              else Inr (False, metadata_dict, s2))
      else Inr (True, metadata_dict, s))"

definition complete_record ::
  "helper \<Rightarrow> string \<Rightarrow> string \<Rightarrow> string \<Rightarrow> dict \<Rightarrow> state
     \<Rightarrow> error + (dict \<times> bool \<times> state)" where
  "complete_record h file_name file_path_web mf metadata_dict s =
     bind (psi4_filename_from_simname h (simname_from_metadata_filename file_name))
       (\<lambda>psi4_file_name.
     bind (waveform_filename_from_simname (simname_from_metadata_filename file_name))
       (\<lambda>wf_file_name.
       if 0 < length metadata_dict
       then bind (add_links h file_name file_path_web mf
                    psi4_file_name wf_file_name metadata_dict) (\<lambda>row. Inr (row, True, s))
       else Inr (metadata_dict, False, s)))"

text \<open>
  The result of a turn is the new \<open>metadata_dict\<close>, whether the loop ends here
  (\<open>break\<close>), and the new state.
\<close>

definition download_one ::
  "helper \<Rightarrow> string \<Rightarrow> dict \<Rightarrow> state \<Rightarrow> error + (dict \<times> bool \<times> state)" where
  "download_one h file_name metadata_dict s =
     (case url_exists s (url_of h file_name) of (on_web, s1) \<Rightarrow>
        if \<not> on_web then Inr (metadata_dict, False, s1)
        else
          bind (read_cached h s1 (path_join (metadata_dir h) file_name) metadata_dict) (\<lambda>md1.
          bind (fetch_if_empty s1 (url_of h file_name)
                  (path_join (metadata_dir h) file_name) md1) (\<lambda>(go_on, md2, s').
            if \<not> go_on then Inr (md2, False, s')
            else complete_record h file_name (url_of h file_name)
                   (path_join (metadata_dir h) file_name) md2 s')))"

fun download_loop :: "helper \<Rightarrow> string list \<Rightarrow> dict \<Rightarrow> state \<Rightarrow> error + (dict \<times> state)" where
  "download_loop h [] metadata_dict s = Inr (metadata_dict, s)"
| "download_loop h (file_name # rest) metadata_dict s =
     bind (download_one h file_name metadata_dict s) (\<lambda>(md, broke, s').
       if broke then Inr (md, s') else download_loop h rest md s')"

text \<open>
  \<open>pd.DataFrame.from_dict(metadata_dict)\<close>: no row for the empty dictionary, else the
  one row that the loop completed.
\<close>

definition download_metadata ::
  "helper \<Rightarrow> state \<Rightarrow> int \<Rightarrow> int \<Rightarrow> int \<Rightarrow> error + (table \<times> state)" where
  "download_metadata h s idx res id_val =
     bind (download_loop h (metadata_filenames idx res id_val) [] s) (\<lambda>(md, s').
       Inr (if length md = 0 then [] else [md], s'))"

subsection \<open>\<open>download_metadata_for_catalog\<close>\<close>

definition write_metadata_df_to_disk :: "state \<Rightarrow> state" where
  "write_metadata_df_to_disk s = s\<lparr>csv := Some (metadata s)\<rparr>"

definition read_metadata_df_from_disk :: "state \<Rightarrow> table \<times> state" where
  "read_metadata_df_from_disk s =
     (let t = (case csv s of None \<Rightarrow> [] | Some t \<Rightarrow> t) in (t, s\<lparr>metadata := t\<rparr>))"

text \<open>\<open>df.iloc[:n]\<close>: a negative \<open>n\<close> counts from the end.\<close>

definition iloc_to :: "int \<Rightarrow> 'a list \<Rightarrow> 'a list" where
  "iloc_to n t = (if 0 \<le> n then take (nat n) t else take (length t - nat (- n)) t)"

text \<open>First tier: the file on disk, only with \<open>use_cache\<close>.\<close>

definition tier1 :: "helper \<Rightarrow> state \<Rightarrow> int \<Rightarrow> error + (bool \<times> table)" where
  "tier1 h s idx =
     (if use_cache h
      then bind (metadata_from_cache h s idx) (\<lambda>sim_data. Inr (0 < length sim_data, sim_data))
      else Inr (False, []))"

text \<open>
  Second tier: every row of the table whose name contains one of the tags. The index
  decoded from the name must be the one looked for. The code then builds the one-row frame
  with \<open>pd.DataFrame.from_dict(row.to_dict(), index=[0])\<close>; \<open>from_dict\<close> has no parameter
  \<open>index\<close>, so this call raises TypeError and the \<open>break\<close> after it is never reached.
\<close>

fun tier2_tags ::
  "int \<Rightarrow> string list \<Rightarrow> string \<Rightarrow> dict \<Rightarrow> bool \<times> table \<Rightarrow> error + (bool \<times> table)" where
  "tier2_tags idx [] name row acc = Inr acc"
| "tier2_tags idx (sim_tag # tags) name row acc =
     (if contains sim_tag name
      then bind (sim_info_from_metadata_filename name) (\<lambda>(f_idx, res, id_val).
             if f_idx = idx then Inl TypeError else Inl AssertionError)
      else tier2_tags idx tags name row acc)"

fun tier2 :: "int \<Rightarrow> table \<Rightarrow> bool \<times> table \<Rightarrow> error + (bool \<times> table)" where
  "tier2 idx [] acc = Inr acc"
| "tier2 idx (row # rows) acc =
     bind (dict_get row ''simulation_name'') (\<lambda>v.
       case v of
         Num _ \<Rightarrow> Inl TypeError
       | Str name \<Rightarrow> bind (tier2_tags idx (simtags idx) name row acc) (tier2 idx rows))"

text \<open>
  Third tier: for each resolution, the id values in turn; the inner loop ends at the first
  hit, and the outer loop ends after a resolution with a hit.
\<close>

fun tier3_ids ::
  "helper \<Rightarrow> int \<Rightarrow> int \<Rightarrow> int list \<Rightarrow> state \<Rightarrow> error + (bool \<times> table \<times> state)" where
  "tier3_ids h idx res [] s = Inr (False, [], s)"
| "tier3_ids h idx res (id_val # ids) s =
     bind (download_metadata h s idx res id_val) (\<lambda>(sim_data, s').
       if 0 < length sim_data then Inr (True, sim_data, s') else tier3_ids h idx res ids s')"

fun tier3 ::
  "helper \<Rightarrow> int \<Rightarrow> int list \<Rightarrow> int list \<Rightarrow> state \<Rightarrow> error + (bool \<times> table \<times> state)" where
  "tier3 h idx [] ids s = Inr (False, [], s)"
| "tier3 h idx (res # rs) ids s =
     bind (tier3_ids h idx res ids s) (\<lambda>(found, sim_data, s').
       if found then Inr (True, sim_data, s') else tier3 h idx rs ids s')"

text \<open>
  The body of the loop over the indices, for \<open>possible_res\<close> and \<open>max_id_in_name\<close> as
  resolved at the start: \<open>possible_res[::-1]\<close> is the reversed list and
  \<open>range(max_id_in_name)\<close> the integers from \<open>0\<close>.
\<close>

definition crawl_index ::
  "helper \<Rightarrow> int list \<Rightarrow> int \<Rightarrow> table \<Rightarrow> int \<Rightarrow> state \<Rightarrow> error + (table \<times> state)" where
  "crawl_index h pres max_id sims idx s =
     bind (tier1 h s idx) (\<lambda>(found1, data1).
     bind (if 0 < length sims \<and> \<not> found1 then tier2 idx sims (found1, data1)
           else Inr (found1, data1)) (\<lambda>(found2, data2).
     bind (if \<not> found2 then tier3 h idx (rev pres) [0..max_id - 1] s
           else Inr (found2, data2, s)) (\<lambda>(found, sim_data, s').
       let sims' = (if found then sims @ sim_data else sims);
           s'' = s'\<lparr>metadata := sims'\<rparr>
       in Inr (sims', if use_cache h then write_metadata_df_to_disk s'' else s''))))"

fun crawl_loop ::
  "helper \<Rightarrow> int list \<Rightarrow> int \<Rightarrow> int list \<Rightarrow> table \<Rightarrow> state \<Rightarrow> error + (table \<times> state)" where
  "crawl_loop h pres max_id [] sims s = Inr (sims, s)"
| "crawl_loop h pres max_id (idx # idxs) sims s =
     bind (crawl_index h pres max_id sims idx s) (\<lambda>(sims', s').
       crawl_loop h pres max_id idxs sims' s')"

text \<open>
  \<open>download_metadata_for_catalog\<close>. With \<open>use_cache\<close> and a snapshot on disk of at least
  \<open>num_sims_to_crawl - 1\<close> rows, the first \<open>num_sims_to_crawl - 1\<close> rows are returned at
  once; otherwise the crawl starts from the snapshot and returns \<open>self.metadata\<close>.
\<close>

definition download_metadata_for_catalog ::
  "helper \<Rightarrow> state \<Rightarrow> int \<Rightarrow> int list \<Rightarrow> int \<Rightarrow> error + (table \<times> state)" where
  "download_metadata_for_catalog h s num_sims_to_crawl possible_res_arg max_id_in_name =
     (let pres = (if length possible_res_arg = 0 then possible_res h else possible_res_arg);
          max_id = (if max_id_in_name \<le> 0 then max_id_val h else max_id_in_name);
          snapshot = (if use_cache h then csv s else None)
      in case snapshot of
           Some t \<Rightarrow>
             if num_sims_to_crawl - 1 \<le> int (length t)
             then Inr (iloc_to (num_sims_to_crawl - 1) t, s\<lparr>metadata := t\<rparr>)
             else bind (crawl_loop h pres max_id [1..num_sims_to_crawl] t (s\<lparr>metadata := t\<rparr>))
                    (\<lambda>(sims, s'). Inr (metadata s', s'))
         | None \<Rightarrow>
             bind (crawl_loop h pres max_id [1..num_sims_to_crawl] [] s)
               (\<lambda>(sims, s'). Inr (metadata s', s')))"

subsection \<open>\<open>refresh_metadata_df_on_disk\<close> and \<open>RITCatalog.load\<close>\<close>

text \<open>
  \<open>sims\<close> starts as the Python list \<open>[]\<close>, here \<open>None\<close>, and becomes a table with the
  first index; \<open>reset_index\<close> on the list raises AttributeError.
\<close>

fun refresh_loop :: "helper \<Rightarrow> state \<Rightarrow> int list \<Rightarrow> table option \<Rightarrow> error + table option" where
  "refresh_loop h s [] sims = Inr sims"
| "refresh_loop h s (idx # idxs) sims =
     bind (metadata_from_cache h s idx) (\<lambda>sim_data.
       refresh_loop h s idxs
         (Some (case sims of
                  None \<Rightarrow> sim_data
                | Some t \<Rightarrow> if length t = 0 then sim_data else t @ sim_data)))"

definition refresh_metadata_df_on_disk :: "helper \<Rightarrow> state \<Rightarrow> int \<Rightarrow> error + (table \<times> state)" where
  "refresh_metadata_df_on_disk h s num_sims_to_crawl =
     bind (refresh_loop h s [1..num_sims_to_crawl] None) (\<lambda>sims.
       case sims of
         None \<Rightarrow> Inl AttributeError
       | Some t \<Rightarrow> Inr (t, s\<lparr>csv := Some t, metadata := t\<rparr>))"

text \<open>The dictionary \<open>simulations\<close>: one entry per row, keyed by its \<open>simulation_name\<close>.\<close>

fun simulations_of :: "table \<Rightarrow> (pyval \<times> dict) list \<Rightarrow> error + (pyval \<times> dict) list" where
  "simulations_of [] simulations = Inr simulations"
| "simulations_of (row # rows) simulations =
     bind (dict_get row ''simulation_name'') (\<lambda>name.
       simulations_of rows (AList.update name row simulations))"

text \<open>
  The completeness gate compares \<open>len(catalog_df)\<close> with the float product
  \<open>acceptable_scraping_fraction * num_sims_to_crawl\<close>. A double is modelled by its exact
  rational value; \<open>to_double\<close> rounds a rational to 53 significant bits, to nearest and
  ties to even, as the conversion of the integer and the multiplication do. The limits of
  the exponent range (overflow, subnormal numbers) are not modelled.
\<close>

function bit_length :: "int \<Rightarrow> int" where
  "bit_length n = (if n \<le> 0 then 0 else 1 + bit_length (n div 2))"
  by pat_completeness auto
termination
  by (relation "measure nat") auto

declare bit_length.simps [simp del]

definition pow2 :: "int \<Rightarrow> rat" where
  "pow2 k = (if 0 \<le> k then 2 ^ nat k else 1 / 2 ^ nat (- k))"

definition round_half_even :: "rat \<Rightarrow> int" where
  "round_half_even q =
     (let f = \<lfloor>q\<rfloor>; d = q - of_int f
      in if d < 1 / 2 then f else if 1 / 2 < d then f + 1 else if even f then f else f + 1)"

text \<open>For a positive \<open>a\<close>, the integer \<open>e\<close> with \<open>2 ^ e \<le> a < 2 ^ (e + 1)\<close>.\<close>

definition binary_exponent :: "rat \<Rightarrow> int" where
  "binary_exponent a =
     (case quotient_of a of (p, q) \<Rightarrow>
        let d = bit_length p - bit_length q
        in if pow2 d \<le> a then d else d - 1)"

definition to_double :: "rat \<Rightarrow> rat" where
  "to_double r =
     (if r = 0 then 0
      else let a = \<bar>r\<bar>;
               e = binary_exponent a;
               m = round_half_even (a / pow2 (e - 52))
           in sgn r * of_int m * pow2 (e - 52))"

definition float_mul :: "rat \<Rightarrow> rat \<Rightarrow> rat" where
  "float_mul a b = to_double (a * b)"

text \<open>\<open>len(df) < acceptable_scraping_fraction * num_sims_to_crawl\<close>\<close>

definition incomplete :: "rat \<Rightarrow> int \<Rightarrow> table \<Rightarrow> bool" where
  "incomplete acceptable_scraping_fraction num_sims_to_crawl df =
     (rat_of_nat (length df)
        < float_mul acceptable_scraping_fraction (to_double (rat_of_int num_sims_to_crawl)))"

text \<open>
  \<open>RITCatalog.load\<close>, without its memoisation. The helper is made with \<open>use_cache=True\<close>;
  \<open>download\<close> is tested for truth; the fraction is the value of a Python float.
\<close>

definition load ::
  "helper \<Rightarrow> state \<Rightarrow> bool \<Rightarrow> int \<Rightarrow> rat \<Rightarrow> error + ((pyval \<times> dict) list \<times> state)" where
  "load h0 s download num_sims_to_crawl acceptable_scraping_fraction =
     (let h = h0\<lparr>use_cache := True\<rparr>
      in case read_metadata_df_from_disk s of (df0, s0) \<Rightarrow>
         bind (if length df0 = 0 then refresh_metadata_df_on_disk h s0 num_sims_to_crawl
               else if incomplete acceptable_scraping_fraction num_sims_to_crawl df0
               then refresh_metadata_df_on_disk h s0 num_sims_to_crawl
               else Inr (df0, s0)) (\<lambda>(catalog_df, s1).
         bind (if incomplete acceptable_scraping_fraction num_sims_to_crawl catalog_df
               then (if download
                     then download_metadata_for_catalog h s1 num_sims_to_crawl [] (- 1)
                     else Inl (ValueError (''Catalog not found in '' @ metadata_dir h
                                             @ ''. Please set `download=True`'')))
               else Inr (catalog_df, s1)) (\<lambda>(catalog_df2, s2).
         bind (simulations_of catalog_df2 []) (\<lambda>simulations. Inr (simulations, s2)))))"

subsection \<open>The path accessors of \<open>RITCatalog\<close>\<close>

text \<open>
  Modelled from the spec: \<open>CatalogBase.get_metadata\<close> is not among the source files; it
  looks the simulation up by name and raises KeyError for an unknown name.
\<close>

definition get_metadata :: "(pyval \<times> dict) list \<Rightarrow> string \<Rightarrow> error + dict" where
  "get_metadata simulations sim_name =
     (case map_of simulations (Str sim_name) of
        None \<Rightarrow> Inl (KeyError sim_name)
      | Some row \<Rightarrow> Inr row)"

text \<open>
  \<open>self.get_metadata(sim_name)[field]\<close> and \<open>os.path.exists\<close> of it; a float is not a
  path.
\<close>

definition located :: "(pyval \<times> dict) list \<Rightarrow> state \<Rightarrow> string \<Rightarrow> string \<Rightarrow> error + (string \<times> bool)" where
  "located simulations s sim_name field =
     bind (get_metadata simulations sim_name) (\<lambda>row.
     bind (dict_get row field) (\<lambda>v.
       case v of
         Num _ \<Rightarrow> Inl TypeError
       | Str file_path \<Rightarrow> Inr (file_path, path_exists s file_path)))"

definition metadata_filepath_from_simname ::
  "(pyval \<times> dict) list \<Rightarrow> state \<Rightarrow> string \<Rightarrow> error + string" where
  "metadata_filepath_from_simname simulations s sim_name =
     bind (located simulations s sim_name ''metadata_location'') (\<lambda>(file_path, there).
       if \<not> there
       then Inl (RuntimeError (''Could not resolve path for '' @ sim_name
                                 @ ''..best calculated path = '' @ file_path))
       else Inr file_path)"

definition waveform_filepath_from_simname ::
  "(pyval \<times> dict) list \<Rightarrow> state \<Rightarrow> string \<Rightarrow> error + string" where
  "waveform_filepath_from_simname simulations s sim_name =
     bind (located simulations s sim_name ''waveform_data_location'') (\<lambda>(file_path, there).
       Inr file_path)"

definition psi4_filepath_from_simname ::
  "(pyval \<times> dict) list \<Rightarrow> state \<Rightarrow> string \<Rightarrow> error + string" where
  "psi4_filepath_from_simname simulations s sim_name =
     bind (located simulations s sim_name ''psi4_data_location'') (\<lambda>(file_path, there).
       if \<not> there then Inr [] else Inr file_path)"

subsection \<open>Candidates of the remote search\<close>

text \<open>
  Whether the archive has a metadata file name, the file names
  that the search tries for one resolution in the order in which it tries them, and the
  network events of a sequence of misses and of a hit. A hit is read from the local copy
  after one existence check when \<open>use_cache\<close> is set and the copy is there; otherwise the
  existence check is repeated and the file is fetched.
\<close>

definition on_web :: "state \<Rightarrow> helper \<Rightarrow> string \<Rightarrow> bool" where
  "on_web s h file_name = (map_of (web s) (url_of h file_name) \<noteq> None)"

definition candidates :: "int \<Rightarrow> int \<Rightarrow> int list \<Rightarrow> string list" where
  "candidates idx res ids = concat (map (metadata_filenames idx res) ids)"


definition probes :: "helper \<Rightarrow> string list \<Rightarrow> event list" where
  "probes h fs = map (\<lambda>f. Probe (url_of h f)) fs"

definition hit_events :: "helper \<Rightarrow> state \<Rightarrow> string \<Rightarrow> event list" where
  "hit_events h s f =
     (if use_cache h \<and> nonempty_file s (path_join (metadata_dir h) f)
      then [Probe (url_of h f)]
      else [Probe (url_of h f), Probe (url_of h f), Fetch (url_of h f)])"

section \<open>Example configuration\<close>

text \<open>
  A helper with the cache under \<open>/c\<close>, the candidate resolutions 100 and 200 and two id
  values, and templates for the auxiliary-field files in the style of the other two.
\<close>

definition demo_helper :: helper where
  "demo_helper =
     \<lparr>metadata_dir = ''/c/metadata'', metadata_url = ''http://rit/Metadata'',
      data_url = ''http://rit/Data'', data_dir = ''/c/data'',
      possible_res = [100, 200], max_id_val = 2, use_cache = True,
      psi4_file_fmt0 = (\<lambda>idx res id_val. ''ExtrapPsi4_RIT-BBH-'' @ fmt_04d idx @ ''-n''
                          @ fmt_d res @ ''-id'' @ fmt_d id_val @ ''.tar.gz''),
      psi4_file_fmt1 = (\<lambda>idx res. ''ExtrapPsi4_RIT-eBBH-'' @ fmt_04d idx @ ''-n''
                          @ fmt_d res @ ''-ecc.tar.gz'')\<rparr>"

definition empty_state :: state where
  "empty_state = \<lparr>files = [], web = [], csv = None, metadata = [], net_log = []\<rparr>"

text \<open>A cache directory that holds a file of either family for index 1.\<close>

definition two_family_state :: state where
  "two_family_state =
     empty_state\<lparr>files :=
       [(''/c/metadata/RIT:BBH:0001-n100-id0_Metadata.txt'', [''Msun = 1'']),
        (''/c/metadata/RIT:eBBH:0001-n100-ecc_Metadata.txt'', [''eccentricity = 0.1''])]\<rparr>"

text \<open>A cache directory that holds one file for index 1 and one for index 2, and no snapshot.\<close>

definition two_index_state :: state where
  "two_index_state =
     empty_state\<lparr>files :=
       [(''/c/metadata/RIT:BBH:0001-n100-id0_Metadata.txt'', [''Msun = 1'']),
        (''/c/metadata/RIT:BBH:0002-n100-id0_Metadata.txt'', [''Msun = 2''])]\<rparr>"

text \<open>A snapshot of \<open>n\<close> rows, none of them for an index below 101.\<close>

definition snapshot_state :: "nat \<Rightarrow> state" where
  "snapshot_state n =
     empty_state\<lparr>csv := Some (replicate n [(''simulation_name'', Str ''RIT:BBH:0101-n100-id0'')])\<rparr>"


section \<open>Properties of the identifier codec\<close>

lemma py_split_nonempty: "py_split sep s \<noteq> []"
  by (induction sep s rule: py_split.induct) (auto split: list.splits)

lemma py_split_no_sep: "c \<notin> set a \<Longrightarrow> py_split [c] a = [a]"
  by (induction a) auto

lemma py_split_first: "c \<notin> set a \<Longrightarrow> py_split [c] (a @ c # rest) = a # py_split [c] rest"
  by (induction a) auto

lemma is_digit_char_of: "(d::nat) < 10 \<Longrightarrow> is_digit (char_of (48 + d))"
  by (simp add: is_digit_def Let_def)

lemma digit_val_char_of: "d < 10 \<Longrightarrow> digit_val (char_of (48 + d)) = d"
  by (simp add: digit_val_def)

lemma digits_of_all: "list_all is_digit (digits_of n)"
  by (induction n rule: digits_of.induct) (subst digits_of.simps, simp add: is_digit_char_of)

lemma digits_of_nonempty: "digits_of n \<noteq> []"
  by (subst digits_of.simps) simp

lemma nat_of_digits_snoc: "nat_of_digits (ds @ [c]) = 10 * nat_of_digits ds + digit_val c"
  by (simp add: nat_of_digits_def)

lemma nat_of_digits_of: "nat_of_digits (digits_of n) = n"
proof (induction n rule: digits_of.induct)
  case (1 n)
  show ?case
  proof (cases "n < 10")
    case True
    then show ?thesis by (subst digits_of.simps) (simp add: nat_of_digits_def digit_val_char_of)
  next
    case False
    then show ?thesis using 1
      by (subst digits_of.simps) (simp add: nat_of_digits_snoc digit_val_char_of)
  qed
qed

lemma nat_of_digits_zeros: "nat_of_digits (replicate k (CHR ''0'') @ ds) = nat_of_digits ds"
proof -
  have "foldl (\<lambda>a c. 10 * a + digit_val c) 0 (replicate k (CHR ''0'')) = 0"
    by (induction k) (simp_all add: digit_val_def)
  then show ?thesis by (simp add: nat_of_digits_def)
qed

lemma digit_part_digits: "ds \<noteq> [] \<Longrightarrow> list_all is_digit ds \<Longrightarrow> digit_part ds = Some ds"
proof (induction ds rule: digit_part.induct)
  case (3 c d cs)
  have "d \<noteq> CHR ''_''" using 3(4) by (auto simp: is_digit_def)
  with 3 show ?case by simp
qed simp_all

lemma digit_not_space: "is_digit c \<Longrightarrow> \<not> is_space c"
  by (auto simp: is_digit_def is_space_def Let_def)

lemma strip_digits: "list_all is_digit ds \<Longrightarrow> strip ds = ds"
proof (cases ds rule: rev_cases)
  case Nil
  then show ?thesis by (simp add: strip_def)
next
  case (snoc ys y)
  assume a: "list_all is_digit ds"
  then have y: "\<not> is_space y" using snoc by (simp add: digit_not_space)
  have "dropWhile is_space ds = ds" using a by (cases ds) (auto simp: digit_not_space)
  then show ?thesis using y snoc by (simp add: strip_def)
qed

lemma py_int_digits:
  assumes "ds \<noteq> []" "list_all is_digit ds"
  shows "py_int ds = Inr (int (nat_of_digits ds))"
proof -
  obtain c r where ds: "ds = c # r" using assms(1) by (cases ds) auto
  then have "is_digit c" using assms(2) by simp
  then have "c \<noteq> CHR ''-''" "c \<noteq> CHR ''+''" by (auto simp: is_digit_def)
  then show ?thesis
    using assms ds by (simp add: py_int_def strip_digits digit_part_digits)
qed

lemma py_int_fmt_d: "0 \<le> i \<Longrightarrow> py_int (fmt_d i) = Inr i"
  by (simp add: fmt_d_def py_int_digits digits_of_all digits_of_nonempty nat_of_digits_of)

lemma zero_is_digit: "is_digit (CHR ''0'')"
  by (simp add: is_digit_def)

lemma py_int_fmt_04d: "0 \<le> i \<Longrightarrow> py_int (fmt_04d i) = Inr i"
proof -
  assume i: "0 \<le> i"
  let ?z = "zero_pad 4 (digits_of (nat i))"
  have "list_all is_digit ?z"
    using digits_of_all[of "nat i"] by (auto simp: zero_pad_def list_all_iff zero_is_digit)
  moreover have "?z \<noteq> []" by (simp add: zero_pad_def digits_of_nonempty)
  ultimately have "py_int ?z = Inr (int (nat_of_digits ?z))" by (rule py_int_digits[rotated])
  then show ?thesis using i
    by (simp add: fmt_04d_def zero_pad_def nat_of_digits_zeros nat_of_digits_of)
qed

lemma length_digits_of: "n < 10 ^ k \<Longrightarrow> 0 < k \<Longrightarrow> length (digits_of n) \<le> k"
proof (induction n arbitrary: k rule: digits_of.induct)
  case (1 n)
  show ?case
  proof (cases "n < 10")
    case True
    then show ?thesis using 1(3) by (subst digits_of.simps) simp
  next
    case False
    obtain j where k: "k = Suc j" using 1(3) by (cases k) auto
    have "0 < j" using False 1(2) k by (cases j) auto
    note k = k this
    then have "n div 10 < 10 ^ j" using 1(2) by (simp add: less_mult_imp_div_less mult.commute)
    then have "length (digits_of (n div 10)) \<le> j" using 1(1)[OF False] k by simp
    then show ?thesis using False k by (subst digits_of.simps) simp
  qed
qed

lemma length_fmt_04d: "0 \<le> i \<Longrightarrow> i \<le> 9999 \<Longrightarrow> length (fmt_04d i) = 4"
proof -
  assume "0 \<le> i" "i \<le> 9999"
  then have "nat i < 10 ^ 4" by simp
  then have "length (digits_of (nat i)) \<le> 4" by (rule length_digits_of) simp
  then show ?thesis using \<open>0 \<le> i\<close> by (simp add: fmt_04d_def zero_pad_def)
qed

lemma digits_no_char: "list_all is_digit ds \<Longrightarrow> \<not> is_digit c \<Longrightarrow> c \<notin> set ds"
  by (auto simp: list_all_iff)


lemma not_digit_chars:
  "\<not> is_digit (CHR ''-'')" "\<not> is_digit (CHR ''_'')" "\<not> is_digit (CHR '':'')"
  "\<not> is_digit (CHR ''n'')" "\<not> is_digit (CHR ''i'')" "\<not> is_digit (CHR ''d'')"
  by (simp_all add: is_digit_def)

lemma fmt_04d_digits: "0 \<le> i \<Longrightarrow> list_all is_digit (fmt_04d i)"
  using digits_of_all[of "nat i"] by (auto simp: fmt_04d_def zero_pad_def list_all_iff zero_is_digit)

lemma fmt_d_digits: "0 \<le> i \<Longrightarrow> list_all is_digit (fmt_d i)"
  using digits_of_all[of "nat i"] by (simp add: fmt_d_def)

lemma fmt_04d_no: "0 \<le> i \<Longrightarrow> \<not> is_digit c \<Longrightarrow> c \<notin> set (fmt_04d i)"
  by (rule digits_no_char[OF fmt_04d_digits])

lemma fmt_d_no: "0 \<le> i \<Longrightarrow> \<not> is_digit c \<Longrightarrow> c \<notin> set (fmt_d i)"
  by (rule digits_no_char[OF fmt_d_digits])

lemma py_index_3:
  "py_index [a, b, c] 0 = Inr a" "py_index [a, b, c] 1 = Inr b" "py_index [a, b, c] 2 = Inr c"
  by (simp_all add: py_index_def)

lemma py_index_hd: "py_index (x # xs) 0 = Inr x"
  by (simp add: py_index_def)

lemma decode_parts:
  assumes sp: "py_split ''-'' f = [a0, a1, a2]"
    and h0: "py_int (slice_last 4 a0) = Inr i"
    and h1: "py_int (slice_from 1 a1) = Inr r"
    and h2: "(case bind (py_index (py_split ''_'' a2) 0) (\<lambda>q. py_int (slice_from 2 q))
              of Inl _ \<Rightarrow> - 1 | Inr v \<Rightarrow> v) = d"
  shows "sim_info_from_metadata_filename f = Inr (i, r, d)"
  unfolding sim_info_from_metadata_filename_def sp py_index_3
  using h0 h1 h2 by (simp add: bind_def)

lemma decode_fmt0:
  assumes "0 \<le> idx" "idx \<le> 9999" "0 \<le> res" "0 \<le> id_val"
  shows "sim_info_from_metadata_filename (metadata_file_fmt0 idx res id_val) = Inr (idx, res, id_val)"
proof -
  define a0 where "a0 = ''RIT:BBH:'' @ fmt_04d idx"
  define a1 where "a1 = CHR ''n'' # fmt_d res"
  define q where "q = ''id'' @ fmt_d id_val"
  define a2 where "a2 = q @ ''_Metadata.txt''"
  have d0: "CHR ''-'' \<notin> set a0" "CHR ''-'' \<notin> set a1" "CHR ''-'' \<notin> set a2" "CHR ''_'' \<notin> set q"
    using assms by (simp_all add: a0_def a1_def a2_def q_def fmt_04d_no fmt_d_no not_digit_chars)
  have f: "metadata_file_fmt0 idx res id_val = a0 @ CHR ''-'' # (a1 @ CHR ''-'' # a2)"
    by (simp add: metadata_file_fmt0_def a0_def a1_def a2_def q_def)
  have sp: "py_split ''-'' (metadata_file_fmt0 idx res id_val) = [a0, a1, a2]"
    unfolding f by (simp add: py_split_first[OF d0(1)] py_split_first[OF d0(2)] py_split_no_sep[OF d0(3)])
  have sq: "py_split ''_'' a2 = q # py_split ''_'' ''Metadata.txt''"
    unfolding a2_def using py_split_first[OF d0(4), of "''Metadata.txt''"] by simp
  have h0: "py_int (slice_last 4 a0) = Inr idx"
    using length_fmt_04d[OF assms(1,2)] assms(1) by (simp add: slice_last_def a0_def py_int_fmt_04d)
  have h1: "py_int (slice_from 1 a1) = Inr res"
    using assms(3) by (simp add: slice_from_def a1_def py_int_fmt_d)
  have h2: "py_int (slice_from 2 q) = Inr id_val"
    using assms(4) by (simp add: slice_from_def q_def py_int_fmt_d)
  show ?thesis
    by (rule decode_parts[OF sp h0 h1]) (simp add: sq py_index_hd bind_def h2)
qed

lemma py_int_c: "py_int ''c'' = Inl (ValueError ''invalid literal for int() with base 10'')"
  by (simp add: py_int_def strip_def is_space_def is_digit_def)

lemma decode_fmt1:
  assumes "0 \<le> idx" "idx \<le> 9999" "0 \<le> res"
  shows "sim_info_from_metadata_filename (metadata_file_fmt1 idx res) = Inr (idx, res, - 1)"
proof -
  define a0 where "a0 = ''RIT:eBBH:'' @ fmt_04d idx"
  define a1 where "a1 = CHR ''n'' # fmt_d res"
  define a2 where "a2 = ''ecc_Metadata.txt''"
  have d0: "CHR ''-'' \<notin> set a0" "CHR ''-'' \<notin> set a1" "CHR ''-'' \<notin> set a2"
    using assms by (simp_all add: a0_def a1_def a2_def fmt_04d_no fmt_d_no not_digit_chars)
  have f: "metadata_file_fmt1 idx res = a0 @ CHR ''-'' # (a1 @ CHR ''-'' # a2)"
    by (simp add: metadata_file_fmt1_def a0_def a1_def a2_def)
  have sp: "py_split ''-'' (metadata_file_fmt1 idx res) = [a0, a1, a2]"
    unfolding f by (simp add: py_split_first[OF d0(1)] py_split_first[OF d0(2)] py_split_no_sep[OF d0(3)])
  have h0: "py_int (slice_last 4 a0) = Inr idx"
    using length_fmt_04d[OF assms(1,2)] assms(1) by (simp add: slice_last_def a0_def py_int_fmt_04d)
  have h1: "py_int (slice_from 1 a1) = Inr res"
    using assms(3) by (simp add: slice_from_def a1_def py_int_fmt_d)
  show ?thesis
    by (rule decode_parts[OF sp h0 h1]) (simp add: a2_def py_index_hd bind_def slice_from_def py_int_c)
qed

text \<open>
  Claim C1. For every valid identifier (index of at most four digits, positive resolution,
  single-digit id value) decoding the quasicircular metadata filename gives back the triple
  \<open>(idx, res, id_val)\<close>, and decoding the eccentric filename, which has no id-value segment,
  returns normally with the sentinel id value \<open>-1\<close>.
\<close>

theorem codec_roundtrip:
  assumes "0 \<le> idx" "idx \<le> 9999" "0 < res" "0 \<le> id_val" "id_val \<le> 9"
  shows "map sim_info_from_metadata_filename (metadata_filenames idx res id_val)
         = [Inr (idx, res, id_val), Inr (idx, res, - 1)]"
  using assms by (simp add: metadata_filenames_def decode_fmt0 decode_fmt1)

text \<open>The round trip at index 7, resolution 100, id value 3.\<close>

theorem codec_roundtrip_witness:
  "map sim_info_from_metadata_filename
     [''RIT:BBH:0007-n100-id3_Metadata.txt'', ''RIT:eBBH:0007-n100-ecc_Metadata.txt'']
   = [Inr (7, 100, 3), Inr (7, 100, - 1)]"
proof -
  have "metadata_filenames 7 100 3 = [''RIT:BBH:0007-n100-id3_Metadata.txt'', ''RIT:eBBH:0007-n100-ecc_Metadata.txt'']"
    by code_simp
  then show ?thesis using codec_roundtrip[of 7 100 3] by simp
qed

section \<open>Properties of the metadata text parser\<close>

subsection \<open>The phases of the parser\<close>

lemma map_of_update: "map_of (AList.update k v d) k' = (if k' = k then Some v else map_of d k')"
  by (simp add: update_conv')

lemma set_reasonable_value_eq:
  "set_reasonable_value key fs opts =
     (if key \<in> set fs \<and> map_of opts key = None
      then (AList.update key (Num (Fin 0)) opts, True) else (opts, False))"
  by (induction fs) auto

lemma map_of_parse_line:
  "map_of (parse_line opts s) k =
     (if key_of s = k
      then Some (case py_float (value_of s) of
                   Some x \<Rightarrow> Num x
                 | None \<Rightarrow> if k \<in> set derived_fields \<and> map_of opts k = None
                            then Num (Fin 0) else Str (value_of s))
      else map_of opts k)"
  by (auto simp: parse_line_def set_reasonable_value_eq map_of_update split: option.splits)

lemma parse_lines_snoc: "parse_lines (ls @ [s]) = parse_line (parse_lines ls) s"
  by (simp add: parse_lines_def)

lemma map_of_parse_lines: "map_of (parse_lines nxt) k = loop_value k nxt"
proof (induction nxt rule: rev_induct)
  case Nil
  then show ?case by (simp add: parse_lines_def loop_value_def lines_for_def)
next
  case (snoc s ls)
  have none: "loop_value k ls = None \<longleftrightarrow> rev (lines_for k ls) = []"
    by (simp add: loop_value_def split: list.splits)
  show ?case
  proof (cases "key_of s = k")
    case True
    then show ?thesis
      using snoc none
      by (simp add: parse_lines_snoc map_of_parse_line loop_value_def lines_for_def
          split: option.splits)
  next
    case False
    then show ?thesis
      using snoc by (simp add: parse_lines_snoc map_of_parse_line loop_value_def lines_for_def)
  qed
qed

lemma system_type_aligned_update:
  "''system-type'' \<noteq> k \<Longrightarrow> system_type_aligned (AList.update k v opts) = system_type_aligned opts"
  by (simp add: system_type_aligned_def dict_get_def map_of_update)

lemma zero_missing_spins_ok:
  assumes "system_type_aligned opts = Inr b" "''system-type'' \<notin> set xys"
  shows "\<exists>o'. zero_missing_spins xys opts = Inr o' \<and> system_type_aligned o' = Inr b \<and>
           (\<forall>k. map_of o' k =
              (if b \<and> k \<in> set xys \<and> map_of opts k = None then Some (Num (Fin 0))
               else map_of opts k))"
  using assms
proof (induction xys arbitrary: opts)
  case Nil
  then show ?case by simp
next
  case (Cons xy xys)
  let ?o = "if map_of opts xy = None \<and> b then AList.update xy (Num (Fin 0)) opts else opts"
  have step: "zero_missing_spins (xy # xys) opts = zero_missing_spins xys ?o"
    using Cons.prems(1) by (simp add: bind_def)
  have st: "system_type_aligned ?o = Inr b"
    using Cons.prems by (simp add: system_type_aligned_update)
  from Cons.IH[OF st] Cons.prems(2)
  obtain o' where o': "zero_missing_spins xys ?o = Inr o'" "system_type_aligned o' = Inr b"
    "\<forall>k. map_of o' k = (if b \<and> k \<in> set xys \<and> map_of ?o k = None then Some (Num (Fin 0)) else map_of ?o k)"
    by auto
  show ?case
    unfolding step using o' by (auto simp: map_of_update)
qed

lemma zero_missing_spins_frame:
  "zero_missing_spins xys opts = Inr o' \<Longrightarrow> k \<notin> set xys \<Longrightarrow> map_of o' k = map_of opts k"
proof (induction xys arbitrary: opts)
  case Nil
  then show ?case by simp
next
  case (Cons xy xys)
  show ?case
  proof (cases "map_of opts xy = None")
    case False
    then have "zero_missing_spins (xy # xys) opts = zero_missing_spins xys opts" by auto
    then show ?thesis using Cons.IH[of opts] Cons.prems by simp
  next
    case True
    then obtain b where b: "system_type_aligned opts = Inr b"
      using Cons.prems(1) by (cases "system_type_aligned opts") (auto simp: bind_def)
    then have "zero_missing_spins xys (if b then AList.update xy (Num (Fin 0)) opts else opts) = Inr o'"
      using Cons.prems(1) True by (simp add: bind_def)
    from Cons.IH[OF this] Cons.prems(2) show ?thesis by (auto simp: map_of_update split: if_splits)
  qed
qed

lemma spin_block_frame:
  "spin_block z xys opts = Inr o' \<Longrightarrow> k \<notin> set xys \<Longrightarrow> map_of o' k = map_of opts k"
  by (auto simp: spin_block_def zero_missing_spins_frame split: if_splits)

lemma spin_completion_frame:
  "spin_completion bs opts = Inr o' \<Longrightarrow> k \<notin> \<Union> (set ` snd ` set bs) \<Longrightarrow> map_of o' k = map_of opts k"
proof (induction bs arbitrary: opts)
  case Nil
  then show ?case by simp
next
  case (Cons b bs)
  obtain z xys where b: "b = (z, xys)" by (cases b)
  from Cons.prems(1) obtain o1 where o1: "spin_block z xys opts = Inr o1" "spin_completion bs o1 = Inr o'"
    unfolding b by (cases "spin_block z xys opts") (auto simp: bind_def)
  have "map_of o1 k = map_of opts k" using spin_block_frame[OF o1(1)] Cons.prems(2) b by simp
  moreover have "map_of o' k = map_of o1 k" using Cons.IH[OF o1(2)] Cons.prems(2) by simp
  ultimately show ?case by simp
qed

lemma map_of_default_derived:
  "map_of (default_derived fs opts) k =
     (if k \<in> set fs \<and> map_of opts k = None then Some (Num (Fin 0)) else map_of opts k)"
  by (induction fs arbitrary: opts) (auto simp: map_of_update)

lemma derive_from_skip: "map_of opts src = None \<Longrightarrow> derive_from src f tgt opts = Inr opts"
  by (simp add: derive_from_def)

lemma derive_from_keep:
  "map_of opts src = Some v \<Longrightarrow> map_of opts tgt = Some t \<Longrightarrow> \<not> eq_zero t \<Longrightarrow>
   derive_from src f tgt opts = Inr opts"
  by (simp add: derive_from_def bind_def dict_get_def)

lemma derive_from_fire:
  assumes "src \<noteq> tgt" "map_of opts src = Some v"
    and "map_of opts tgt = None \<or> (\<exists>t. map_of opts tgt = Some t \<and> eq_zero t)"
    and "f v = Inr w"
  shows "\<exists>o'. derive_from src f tgt opts = Inr o' \<and>
           (\<forall>k. map_of o' k = (if k = tgt then Some w else map_of opts k))"
  using assms by (auto simp: derive_from_def bind_def dict_get_def map_of_update)

lemma derive_from_raise:
  assumes "src \<noteq> tgt" "map_of opts src = Some v"
    and "map_of opts tgt = None \<or> (\<exists>t. map_of opts tgt = Some t \<and> eq_zero t)"
    and "f v = Inl e"
  shows "derive_from src f tgt opts = Inl e"
  using assms by (auto simp: derive_from_def bind_def dict_get_def map_of_update)

lemma derive_from_frame:
  "derive_from src f tgt opts = Inr o' \<Longrightarrow> k \<noteq> tgt \<Longrightarrow> map_of o' k = map_of opts k"
  by (auto simp: derive_from_def bind_def dict_get_def map_of_update
      split: if_splits sum.splits option.splits)

lemma derive_from_target:
  assumes "derive_from src f tgt opts = Inr o'" "\<And>v w. f v = Inr w \<Longrightarrow> \<exists>x. w = Num x"
  shows "map_of o' tgt = map_of opts tgt \<or> (\<exists>x. map_of o' tgt = Some (Num x))"
  using assms
  by (auto simp: derive_from_def bind_def dict_get_def map_of_update
      split: if_splits sum.splits option.splits)

lemma div2_Num: "div2 v = Inr w \<Longrightarrow> \<exists>x. w = Num x"
  by (auto simp: div2_def split: pyval.splits)

lemma mul2_Num: "mul2 v = Inr w \<Longrightarrow> \<exists>x. w = Num x"
  by (auto simp: mul2_def split: pyval.splits)

lemma derive_from_total:
  assumes "\<And>t. map_of opts src \<noteq> Some (Str t)" "f = div2 \<or> f = mul2"
  shows "\<exists>o'. derive_from src f tgt opts = Inr o'"
proof (cases "map_of opts src")
  case None
  then show ?thesis by (simp add: derive_from_skip)
next
  case (Some v)
  then obtain x where v: "v = Num x" using assms(1) by (cases v) auto
  then obtain w where "f v = Inr w" using assms(2) by (auto simp: div2_def mul2_def)
  then show ?thesis using Some
    by (auto simp: derive_from_def bind_def dict_get_def map_of_update split: option.splits)
qed

lemma parse_metadata_txt_phases:
  assumes "parse_metadata_txt raw = Inr (nxt, opts)"
  obtains o1 o2 o3 where "nxt = filter_lines raw"
    "spin_completion spin_blocks (parse_lines nxt) = Inr o1"
    "cycles_to_orbits o1 = Inr o2" "orbits_to_cycles o2 = Inr o3"
    "opts = default_derived derived_fields o3"
  using assms
  by (auto simp: parse_metadata_txt_def bind_def Let_def split: sum.splits)

lemma derived_not_spin:
  "k \<in> set derived_fields \<Longrightarrow> k \<notin> \<Union> (set ` snd ` set spin_blocks)"
  by (auto simp: derived_fields_def spin_blocks_def)

lemma loop_value_text:
  "k \<in> set derived_fields \<Longrightarrow> (\<exists>t. loop_value k nxt = Some (Str t)) \<longleftrightarrow> text_overwrites k nxt"
  by (auto simp: loop_value_def text_overwrites_def split: list.splits option.splits)

lemma loop_value_unsupplied:
  "k \<in> set derived_fields \<Longrightarrow> unsupplied k nxt \<Longrightarrow>
   loop_value k nxt = None \<or> loop_value k nxt = Some (Num (Fin 0))"
  by (cases "lines_for k nxt" rule: rev_cases)
     (auto simp: loop_value_def unsupplied_def split: list.splits option.splits)

lemma derive_from_text:
  "derive_from src f tgt opts = Inr o' \<Longrightarrow> map_of opts tgt = Some (Str t) \<Longrightarrow>
   map_of o' tgt = Some (Str t)"
  by (auto simp: derive_from_def bind_def dict_get_def eq_zero_def split: if_splits)

lemma derive_from_zero:
  assumes "derive_from src f tgt opts = Inr o'" "src \<noteq> tgt"
    and "map_of opts src = None \<or> map_of opts src = Some (Num (Fin 0))"
    and "map_of opts tgt = None \<or> map_of opts tgt = Some (Num (Fin 0))"
    and "f (Num (Fin 0)) = Inr (Num (Fin 0))"
  shows "map_of o' tgt = None \<or> map_of o' tgt = Some (Num (Fin 0))"
  using assms
  by (auto simp: derive_from_def bind_def dict_get_def map_of_update eq_zero_def split: if_splits)

lemma div2_zero: "div2 (Num (Fin 0)) = Inr (Num (Fin 0))"
  by (simp add: div2_def)

lemma mul2_zero: "mul2 (Num (Fin 0)) = Inr (Num (Fin 0))"
  by (simp add: mul2_def)

lemma derive_from_text_iff:
  assumes "derive_from src f tgt opts = Inr o'" "\<And>v w. f v = Inr w \<Longrightarrow> \<exists>x. w = Num x"
  shows "(\<exists>t. map_of o' j = Some (Str t)) \<longleftrightarrow> (\<exists>t. map_of opts j = Some (Str t))"
proof (cases "j = tgt")
  case False
  then show ?thesis using derive_from_frame[OF assms(1)] by simp
next
  case True
  have a: "map_of o' tgt = map_of opts tgt \<or> (\<exists>x. map_of o' tgt = Some (Num x))"
    by (rule derive_from_target[OF assms])
  have b: "map_of o' tgt = Some (Str t)" if "map_of opts tgt = Some (Str t)" for t
    by (rule derive_from_text[OF assms(1) that])
  show ?thesis unfolding True using a b by (metis option.inject pyval.distinct(1))
qed

lemma derived_cases:
  assumes "k \<in> set derived_fields"
  obtains "k = ''number-of-cycles-22''" | "k = ''number-of-orbits''"
  | "k \<noteq> ''number-of-cycles-22''" "k \<noteq> ''number-of-orbits''" "partner k = k"
  by (auto simp: partner_def)

lemma cycles_orbits_derived:
  "''number-of-cycles-22'' \<in> set derived_fields" "''number-of-orbits'' \<in> set derived_fields"
  by (simp_all add: derived_fields_def)

subsection \<open>Derived fields\<close>

text \<open>
  Claim C7, as the code has it. Whenever \<open>parse_metadata_txt\<close> returns a record, each of
  the eight derived fields is in it. The field is a number exactly when the text does not
  overwrite it (the key on two lines or more, the last of them with a value that is not a
  float; the record then keeps that text). A field that the text leaves unsupplied, and
  whose partner in the orbit/cycle derivation is unsupplied too, is \<open>0.0\<close>.
\<close>

theorem derived_fields_total:
  assumes "parse_metadata_txt raw = Inr (nxt, opts)" and "k \<in> set derived_fields"
  shows "\<exists>v. map_of opts k = Some v \<and>
           ((\<exists>x. v = Num x) \<longleftrightarrow> \<not> text_overwrites k nxt) \<and>
           (unsupplied k nxt \<and> unsupplied (partner k) nxt \<longrightarrow> v = Num (Fin 0))"
proof -
  from assms(1) obtain o1 o2 o3 where ph: "nxt = filter_lines raw"
    "spin_completion spin_blocks (parse_lines nxt) = Inr o1"
    "cycles_to_orbits o1 = Inr o2" "orbits_to_cycles o2 = Inr o3"
    "opts = default_derived derived_fields o3"
    by (rule parse_metadata_txt_phases)
  have d2: "derive_from ''number-of-cycles-22'' div2 ''number-of-orbits'' o1 = Inr o2"
    using ph(3) by (simp add: cycles_to_orbits_def)
  have d3: "derive_from ''number-of-orbits'' mul2 ''number-of-cycles-22'' o2 = Inr o3"
    using ph(4) by (simp add: orbits_to_cycles_def)
  have o1: "map_of o1 j = loop_value j nxt" if "j \<in> set derived_fields" for j
    using spin_completion_frame[OF ph(2) derived_not_spin[OF that]]
    by (simp add: map_of_parse_lines)
  have fin: "map_of opts k = (if map_of o3 k = None then Some (Num (Fin 0)) else map_of o3 k)"
    using assms(2) by (simp add: ph(5) map_of_default_derived)
  have "(\<exists>t. map_of o3 k = Some (Str t)) \<longleftrightarrow> (\<exists>t. map_of o2 k = Some (Str t))"
    by (rule derive_from_text_iff[OF d3 mul2_Num])
  also have "\<dots> \<longleftrightarrow> (\<exists>t. map_of o1 k = Some (Str t))"
    by (rule derive_from_text_iff[OF d2 div2_Num])
  also have "\<dots> \<longleftrightarrow> text_overwrites k nxt"
    using loop_value_text[OF assms(2)] o1[OF assms(2)] by simp
  finally have tov: "(\<exists>t. map_of o3 k = Some (Str t)) \<longleftrightarrow> text_overwrites k nxt" .
  obtain v where v: "map_of opts k = Some v" using fin by (cases "map_of o3 k") auto
  have num: "(\<exists>x. v = Num x) \<longleftrightarrow> \<not> text_overwrites k nxt"
  proof (cases v)
    case (Num x)
    then have "\<not> (\<exists>t. map_of o3 k = Some (Str t))" using v fin by (auto split: if_splits)
    then show ?thesis using tov Num by simp
  next
    case (Str t)
    then have "map_of o3 k = Some (Str t)" using v fin by (auto split: if_splits)
    then show ?thesis using tov Str by auto
  qed
  have zero: "v = Num (Fin 0)" if u: "unsupplied k nxt" "unsupplied (partner k) nxt"
  proof -
    have "map_of o3 k = None \<or> map_of o3 k = Some (Num (Fin 0))"
    proof (rule derived_cases[OF assms(2)])
      assume k: "k \<noteq> ''number-of-cycles-22''" "k \<noteq> ''number-of-orbits''" "partner k = k"
      have "map_of o3 k = map_of o1 k"
        using derive_from_frame[OF d3, of k] derive_from_frame[OF d2, of k] k by simp
      then show ?thesis using loop_value_unsupplied[OF assms(2) u(1)] o1[OF assms(2)] by simp
    next
      assume k: "k = ''number-of-cycles-22''"
      then have u': "unsupplied ''number-of-cycles-22'' nxt" "unsupplied ''number-of-orbits'' nxt"
        using u by (simp_all add: partner_def)
      have c1: "map_of o1 ''number-of-cycles-22'' = None \<or> map_of o1 ''number-of-cycles-22'' = Some (Num (Fin 0))"
        using loop_value_unsupplied[OF cycles_orbits_derived(1) u'(1)] o1[OF cycles_orbits_derived(1)] by simp
      have b1: "map_of o1 ''number-of-orbits'' = None \<or> map_of o1 ''number-of-orbits'' = Some (Num (Fin 0))"
        using loop_value_unsupplied[OF cycles_orbits_derived(2) u'(2)] o1[OF cycles_orbits_derived(2)] by simp
      have b2: "map_of o2 ''number-of-orbits'' = None \<or> map_of o2 ''number-of-orbits'' = Some (Num (Fin 0))"
        by (rule derive_from_zero[OF d2 _ c1 b1 div2_zero]) simp
      have c2: "map_of o2 ''number-of-cycles-22'' = None \<or> map_of o2 ''number-of-cycles-22'' = Some (Num (Fin 0))"
        using derive_from_frame[OF d2, of "''number-of-cycles-22''"] c1 by simp
      show ?thesis unfolding k
        by (rule derive_from_zero[OF d3 _ b2 c2 mul2_zero]) simp
    next
      assume k: "k = ''number-of-orbits''"
      then have u': "unsupplied ''number-of-cycles-22'' nxt" "unsupplied ''number-of-orbits'' nxt"
        using u by (simp_all add: partner_def)
      have c1: "map_of o1 ''number-of-cycles-22'' = None \<or> map_of o1 ''number-of-cycles-22'' = Some (Num (Fin 0))"
        using loop_value_unsupplied[OF cycles_orbits_derived(1) u'(1)] o1[OF cycles_orbits_derived(1)] by simp
      have b1: "map_of o1 ''number-of-orbits'' = None \<or> map_of o1 ''number-of-orbits'' = Some (Num (Fin 0))"
        using loop_value_unsupplied[OF cycles_orbits_derived(2) u'(2)] o1[OF cycles_orbits_derived(2)] by simp
      have b2: "map_of o2 ''number-of-orbits'' = None \<or> map_of o2 ''number-of-orbits'' = Some (Num (Fin 0))"
        by (rule derive_from_zero[OF d2 _ c1 b1 div2_zero]) simp
      show ?thesis unfolding k
        using derive_from_frame[OF d3, of "''number-of-orbits''"] b2 by simp
    qed
    then show ?thesis using v fin by (auto split: if_splits)
  qed
  show ?thesis using v num zero by blast
qed

text \<open>The empty line sequence: all eight fields are present and \<open>0.0\<close>.\<close>

theorem derived_fields_total_witness:
  "parse_metadata_txt [] =
     Inr ([], [(''freq-start-22'', Num (Fin 0)), (''freq-start-22-Hz-1Msun'', Num (Fin 0)),
               (''number-of-cycles-22'', Num (Fin 0)), (''number-of-orbits'', Num (Fin 0)),
               (''peak-omega-22'', Num (Fin 0)), (''peak-ampl-22'', Num (Fin 0)),
               (''Msun'', Num (Fin 0)), (''eccentricity'', Num (Fin 0))])
   \<and> ''eccentricity'' \<in> set derived_fields
   \<and> \<not> text_overwrites ''eccentricity'' []
   \<and> unsupplied ''eccentricity'' []
   \<and> (\<exists>v. map_of [(''freq-start-22'', Num (Fin 0)), (''freq-start-22-Hz-1Msun'', Num (Fin 0)),
               (''number-of-cycles-22'', Num (Fin 0)), (''number-of-orbits'', Num (Fin 0)),
               (''peak-omega-22'', Num (Fin 0)), (''peak-ampl-22'', Num (Fin 0)),
               (''Msun'', Num (Fin 0)), (''eccentricity'', Num (Fin 0))] ''eccentricity'' = Some v
        \<and> (\<exists>x. v = Num x) \<and> v = Num (Fin 0))"
proof -
  have p: "parse_metadata_txt [] =
     Inr ([], [(''freq-start-22'', Num (Fin 0)), (''freq-start-22-Hz-1Msun'', Num (Fin 0)),
               (''number-of-cycles-22'', Num (Fin 0)), (''number-of-orbits'', Num (Fin 0)),
               (''peak-omega-22'', Num (Fin 0)), (''peak-ampl-22'', Num (Fin 0)),
               (''Msun'', Num (Fin 0)), (''eccentricity'', Num (Fin 0))])"
    by code_simp
  have k: "''eccentricity'' \<in> set derived_fields" by (simp add: derived_fields_def)
  have t: "\<not> text_overwrites ''eccentricity'' []" by (simp add: text_overwrites_def lines_for_def)
  have u: "unsupplied ''eccentricity'' []" "unsupplied (partner ''eccentricity'') []"
    by (simp_all add: unsupplied_def lines_for_def)
  show ?thesis using derived_fields_total[OF p k] p k t u by auto
qed

text \<open>
  A derived field that is not numeric: \<open>Msun\<close> is set by the first line, so the second
  line, whose value is not a float, is stored as text.
\<close>

theorem derived_field_text_counterexample:
  "parse_metadata_txt [''Msun = 1.0'', ''Msun = unknown''] =
     Inr ([''Msun = 1.0'', ''Msun = unknown''],
          [(''Msun'', Str ''unknown''), (''freq-start-22'', Num (Fin 0)),
           (''freq-start-22-Hz-1Msun'', Num (Fin 0)), (''number-of-cycles-22'', Num (Fin 0)),
           (''number-of-orbits'', Num (Fin 0)), (''peak-omega-22'', Num (Fin 0)),
           (''peak-ampl-22'', Num (Fin 0)), (''eccentricity'', Num (Fin 0))])"
  by code_simp

subsection \<open>Inputs on which the parser raises\<close>

text \<open>
  Claim C2 at its own inputs. A \<open>z\<close> spin key without a \<open>system-type\<close> line raises
  KeyError, a numeric \<open>system-type\<close> raises AttributeError, and a derived orbit/cycle key
  whose second line is not a float raises TypeError in the cross-derivation.
\<close>

theorem parse_metadata_txt_raises:
  "parse_metadata_txt [''relaxed-chi1z = 0.2''] = Inl (KeyError ''system-type'')
   \<and> parse_metadata_txt [''initial-bh-chi2z = 0.1''] = Inl (KeyError ''system-type'')
   \<and> parse_metadata_txt [''relaxed-chi1z = 0.2'', ''system-type = 3''] = Inl AttributeError
   \<and> parse_metadata_txt [''number-of-cycles-22 = 10'', ''number-of-cycles-22 = n/a'']
       = Inl TypeError"
  by code_simp

subsection \<open>Orbit/cycle cross-derivation\<close>

lemma twice_half: "twice (half c) = c"
  by (cases c) simp_all

lemma supplies_loop_value: "supplies k nxt x \<Longrightarrow> loop_value k nxt = Some (Num x)"
  by (auto simp: supplies_def last_value_def loop_value_def split: list.splits option.splits)

lemma omits_or_zeroes_loop_value:
  "omits_or_zeroes k nxt \<Longrightarrow> loop_value k nxt = None \<or> loop_value k nxt = Some (Num (Fin 0))"
  using supplies_loop_value[of k nxt "Fin 0"]
  by (auto simp: omits_or_zeroes_def loop_value_def)

lemma parse_metadata_txt_after_spins:
  assumes "spin_completion spin_blocks (parse_lines (filter_lines raw)) = Inr opts1"
  shows "parse_metadata_txt raw =
           bind (cycles_to_orbits opts1) (\<lambda>opts2.
           bind (orbits_to_cycles opts2) (\<lambda>opts3.
           Inr (filter_lines raw, default_derived derived_fields opts3)))"
  using assms by (simp add: parse_metadata_txt_def bind_def Let_def)

lemma cross_from_cycles:
  assumes c: "map_of o1 ''number-of-cycles-22'' = Some (Num c)"
    and b: "map_of o1 ''number-of-orbits'' = None \<or> map_of o1 ''number-of-orbits'' = Some (Num (Fin 0))"
  shows "\<exists>o3. bind (cycles_to_orbits o1) orbits_to_cycles = Inr o3 \<and>
           map_of o3 ''number-of-orbits'' = Some (Num (half c)) \<and>
           map_of o3 ''number-of-cycles-22'' = Some (Num c)"
proof -
  have z: "map_of o1 ''number-of-orbits'' = None \<or>
           (\<exists>t. map_of o1 ''number-of-orbits'' = Some t \<and> eq_zero t)"
    using b by (auto simp: eq_zero_def)
  from derive_from_fire[of "''number-of-cycles-22''" "''number-of-orbits''" o1 "Num c" div2 "Num (half c)", OF _ c z]
  obtain o2 where o2: "cycles_to_orbits o1 = Inr o2"
    "\<forall>k. map_of o2 k = (if k = ''number-of-orbits'' then Some (Num (half c)) else map_of o1 k)"
    by (auto simp: cycles_to_orbits_def div2_def)
  have c2: "map_of o2 ''number-of-cycles-22'' = Some (Num c)" using o2(2) c by simp
  have b2: "map_of o2 ''number-of-orbits'' = Some (Num (half c))" using o2(2) by simp
  show ?thesis
  proof (cases "is_zero c")
    case False
    then have "orbits_to_cycles o2 = Inr o2"
      unfolding orbits_to_cycles_def
      by (intro derive_from_keep[OF b2 c2]) (simp add: eq_zero_def)
    then show ?thesis using o2(1) b2 c2 by (simp add: bind_def)
  next
    case True
    then have "map_of o2 ''number-of-cycles-22'' = None \<or>
           (\<exists>t. map_of o2 ''number-of-cycles-22'' = Some t \<and> eq_zero t)"
      using c2 by (simp add: eq_zero_def)
    from derive_from_fire[of "''number-of-orbits''" "''number-of-cycles-22''" o2 "Num (half c)" mul2 "Num (twice (half c))", OF _ b2 this]
    obtain o3 where o3: "orbits_to_cycles o2 = Inr o3"
      "\<forall>k. map_of o3 k = (if k = ''number-of-cycles-22'' then Some (Num (twice (half c))) else map_of o2 k)"
      by (auto simp: orbits_to_cycles_def mul2_def)
    show ?thesis using o2(1) o3 b2 by (simp add: bind_def twice_half)
  qed
qed

lemma cross_from_orbits:
  assumes b: "map_of o1 ''number-of-orbits'' = Some (Num b)"
    and c: "map_of o1 ''number-of-cycles-22'' = None \<or> map_of o1 ''number-of-cycles-22'' = Some (Num (Fin 0))"
  shows "\<exists>o3. bind (cycles_to_orbits o1) orbits_to_cycles = Inr o3 \<and>
           map_of o3 ''number-of-cycles-22'' = Some (Num (twice b)) \<and>
           map_of o3 ''number-of-orbits'' = Some (Num b)"
proof -
  have "\<exists>o2. cycles_to_orbits o1 = Inr o2 \<and> map_of o2 ''number-of-orbits'' = Some (Num b) \<and>
          map_of o2 ''number-of-cycles-22'' = map_of o1 ''number-of-cycles-22''"
  proof (cases "map_of o1 ''number-of-cycles-22''")
    case None
    then show ?thesis using b by (simp add: cycles_to_orbits_def derive_from_skip)
  next
    case (Some v)
    then have v: "map_of o1 ''number-of-cycles-22'' = Some (Num (Fin 0))" using c by simp
    show ?thesis
    proof (cases "is_zero b")
      case False
      then have "cycles_to_orbits o1 = Inr o1"
        unfolding cycles_to_orbits_def
        by (intro derive_from_keep[OF v b]) (simp add: eq_zero_def)
      then show ?thesis using b by simp
    next
      case True
      then have b0: "b = Fin 0" by (cases b) simp_all
      have "map_of o1 ''number-of-orbits'' = None \<or>
           (\<exists>t. map_of o1 ''number-of-orbits'' = Some t \<and> eq_zero t)"
        using b b0 by (simp add: eq_zero_def)
      from derive_from_fire[of "''number-of-cycles-22''" "''number-of-orbits''" o1 "Num (Fin 0)" div2 "Num (Fin 0)", OF _ v this]
      obtain o2 where "cycles_to_orbits o1 = Inr o2"
        "\<forall>k. map_of o2 k = (if k = ''number-of-orbits'' then Some (Num (Fin 0)) else map_of o1 k)"
        by (auto simp: cycles_to_orbits_def div2_def)
      then show ?thesis using b0 by simp
    qed
  qed
  then obtain o2 where o2: "cycles_to_orbits o1 = Inr o2"
    "map_of o2 ''number-of-orbits'' = Some (Num b)"
    "map_of o2 ''number-of-cycles-22'' = map_of o1 ''number-of-cycles-22''"
    by blast
  have "map_of o2 ''number-of-cycles-22'' = None \<or>
           (\<exists>t. map_of o2 ''number-of-cycles-22'' = Some t \<and> eq_zero t)"
    using c o2(3) by (auto simp: eq_zero_def)
  from derive_from_fire[of "''number-of-orbits''" "''number-of-cycles-22''" o2 "Num b" mul2 "Num (twice b)", OF _ o2(2) this]
  obtain o3 where o3: "orbits_to_cycles o2 = Inr o3"
    "\<forall>k. map_of o3 k = (if k = ''number-of-cycles-22'' then Some (Num (twice b)) else map_of o2 k)"
    by (auto simp: orbits_to_cycles_def mul2_def)
  show ?thesis using o2 o3 by (simp add: bind_def)
qed

lemma default_derived_keeps:
  "map_of opts k = Some v \<Longrightarrow> map_of (default_derived fs opts) k = Some v"
  by (simp add: map_of_default_derived)

text \<open>
  Claim C8. Let steps 1 to 4 of the parser have gone through. If the text supplies the
  float \<open>c\<close> for \<open>number-of-cycles-22\<close> and omits \<open>number-of-orbits\<close>, or supplies
  zero for it, the parser returns a record with \<open>number-of-orbits = c / 2\<close>; if it supplies
  \<open>b\<close> for \<open>number-of-orbits\<close> and omits or zeroes \<open>number-of-cycles-22\<close>, the record has
  \<open>number-of-cycles-22 = b * 2\<close>. The rule from cycles to orbits runs first, the rule from
  orbits to cycles on its result.
\<close>

theorem orbit_cycle_cross_derivation:
  assumes "spin_completion spin_blocks (parse_lines (filter_lines raw)) = Inr opts1"
  shows "(supplies ''number-of-cycles-22'' (filter_lines raw) c
            \<and> omits_or_zeroes ''number-of-orbits'' (filter_lines raw) \<longrightarrow>
          (\<exists>opts. parse_metadata_txt raw = Inr (filter_lines raw, opts)
             \<and> map_of opts ''number-of-orbits'' = Some (Num (half c))
             \<and> map_of opts ''number-of-cycles-22'' = Some (Num c)))
       \<and> (supplies ''number-of-orbits'' (filter_lines raw) b
            \<and> omits_or_zeroes ''number-of-cycles-22'' (filter_lines raw) \<longrightarrow>
          (\<exists>opts. parse_metadata_txt raw = Inr (filter_lines raw, opts)
             \<and> map_of opts ''number-of-cycles-22'' = Some (Num (twice b))
             \<and> map_of opts ''number-of-orbits'' = Some (Num b)))
       \<and> parse_metadata_txt raw =
           bind (cycles_to_orbits opts1) (\<lambda>opts2.
           bind (orbits_to_cycles opts2) (\<lambda>opts3.
           Inr (filter_lines raw, default_derived derived_fields opts3)))"
proof -
  let ?nxt = "filter_lines raw"
  have o1: "map_of opts1 j = loop_value j ?nxt" if "j \<in> set derived_fields" for j
    using spin_completion_frame[OF assms derived_not_spin[OF that]]
    by (simp add: map_of_parse_lines)
  note ph = parse_metadata_txt_after_spins[OF assms]
  have fin: "parse_metadata_txt raw = Inr (?nxt, default_derived derived_fields o3)"
    if "bind (cycles_to_orbits opts1) orbits_to_cycles = Inr o3" for o3
    using that unfolding ph by (auto simp: bind_def split: sum.splits)
  have A: "\<exists>opts. parse_metadata_txt raw = Inr (?nxt, opts)
             \<and> map_of opts ''number-of-orbits'' = Some (Num (half c))
             \<and> map_of opts ''number-of-cycles-22'' = Some (Num c)"
    if s: "supplies ''number-of-cycles-22'' ?nxt c" and z: "omits_or_zeroes ''number-of-orbits'' ?nxt"
  proof -
    have "map_of opts1 ''number-of-cycles-22'' = Some (Num c)"
      using supplies_loop_value[OF s] o1[OF cycles_orbits_derived(1)] by simp
    moreover have "map_of opts1 ''number-of-orbits'' = None \<or> map_of opts1 ''number-of-orbits'' = Some (Num (Fin 0))"
      using omits_or_zeroes_loop_value[OF z] o1[OF cycles_orbits_derived(2)] by simp
    ultimately obtain o3 where o3: "bind (cycles_to_orbits opts1) orbits_to_cycles = Inr o3"
      "map_of o3 ''number-of-orbits'' = Some (Num (half c))"
      "map_of o3 ''number-of-cycles-22'' = Some (Num c)"
      using cross_from_cycles by blast
    show ?thesis
      using fin[OF o3(1)] default_derived_keeps[OF o3(2)] default_derived_keeps[OF o3(3)] by blast
  qed
  have B: "\<exists>opts. parse_metadata_txt raw = Inr (?nxt, opts)
             \<and> map_of opts ''number-of-cycles-22'' = Some (Num (twice b))
             \<and> map_of opts ''number-of-orbits'' = Some (Num b)"
    if s: "supplies ''number-of-orbits'' ?nxt b" and z: "omits_or_zeroes ''number-of-cycles-22'' ?nxt"
  proof -
    have "map_of opts1 ''number-of-orbits'' = Some (Num b)"
      using supplies_loop_value[OF s] o1[OF cycles_orbits_derived(2)] by simp
    moreover have "map_of opts1 ''number-of-cycles-22'' = None \<or> map_of opts1 ''number-of-cycles-22'' = Some (Num (Fin 0))"
      using omits_or_zeroes_loop_value[OF z] o1[OF cycles_orbits_derived(1)] by simp
    ultimately obtain o3 where o3: "bind (cycles_to_orbits opts1) orbits_to_cycles = Inr o3"
      "map_of o3 ''number-of-cycles-22'' = Some (Num (twice b))"
      "map_of o3 ''number-of-orbits'' = Some (Num b)"
      using cross_from_orbits by blast
    show ?thesis
      using fin[OF o3(1)] default_derived_keeps[OF o3(2)] default_derived_keeps[OF o3(3)] by blast
  qed
  show ?thesis using A B ph by blast
qed

text \<open>
  The examples of the claim: ten cycles give five orbits, five orbits give ten cycles, and
  an orbit count of zero is replaced.
\<close>

theorem orbit_cycle_cross_derivation_witness:
  "(\<exists>opts. parse_metadata_txt [''number-of-cycles-22 = 10''] = Inr ([''number-of-cycles-22 = 10''], opts)
      \<and> map_of opts ''number-of-orbits'' = Some (Num (Fin 5))
      \<and> map_of opts ''number-of-cycles-22'' = Some (Num (Fin 10)))
   \<and> (\<exists>opts. parse_metadata_txt [''number-of-orbits = 5''] = Inr ([''number-of-orbits = 5''], opts)
      \<and> map_of opts ''number-of-cycles-22'' = Some (Num (Fin 10))
      \<and> map_of opts ''number-of-orbits'' = Some (Num (Fin 5)))
   \<and> (\<exists>opts. parse_metadata_txt [''number-of-orbits = 0.0'', ''number-of-cycles-22 = 10'']
        = Inr ([''number-of-orbits = 0.0'', ''number-of-cycles-22 = 10''], opts)
      \<and> map_of opts ''number-of-orbits'' = Some (Num (Fin 5)))"
proof -
  let ?r1 = "[''number-of-cycles-22 = 10'']"
  let ?r2 = "[''number-of-orbits = 5'']"
  let ?r3 = "[''number-of-orbits = 0.0'', ''number-of-cycles-22 = 10'']"
  have f: "filter_lines ?r1 = ?r1" "filter_lines ?r2 = ?r2" "filter_lines ?r3 = ?r3"
    by code_simp+
  have s1: "spin_completion spin_blocks (parse_lines (filter_lines ?r1)) = Inr [(''number-of-cycles-22'', Num (Fin 10))]"
    by code_simp
  have s2: "spin_completion spin_blocks (parse_lines (filter_lines ?r2)) = Inr [(''number-of-orbits'', Num (Fin 5))]"
    by code_simp
  have s3: "spin_completion spin_blocks (parse_lines (filter_lines ?r3))
            = Inr [(''number-of-orbits'', Num (Fin 0)), (''number-of-cycles-22'', Num (Fin 10))]"
    by code_simp
  have h1: "supplies ''number-of-cycles-22'' (filter_lines ?r1) (Fin 10)"
    "omits_or_zeroes ''number-of-orbits'' (filter_lines ?r1)"
    by code_simp+
  have h2: "supplies ''number-of-orbits'' (filter_lines ?r2) (Fin 5)"
    "omits_or_zeroes ''number-of-cycles-22'' (filter_lines ?r2)"
    by code_simp+
  have h3: "supplies ''number-of-cycles-22'' (filter_lines ?r3) (Fin 10)"
    "omits_or_zeroes ''number-of-orbits'' (filter_lines ?r3)"
    by code_simp+
  have a: "half (Fin 10) = Fin 5" "twice (Fin 5) = Fin 10" by simp_all
  show ?thesis
    using orbit_cycle_cross_derivation[OF s1, of "Fin 10"] h1
      orbit_cycle_cross_derivation[OF s2, of _ "Fin 5"] h2
      orbit_cycle_cross_derivation[OF s3, of "Fin 10"] h3
    unfolding f a by blast
qed

subsection \<open>Spin-component completion\<close>

lemma digit_part_nondigit: "\<not> is_digit a \<Longrightarrow> digit_part (a # r) = None"
  by (cases r) simp_all

lemma lower_char_space: "is_space c \<Longrightarrow> lower_char c = c"
  by (auto simp: is_space_def lower_char_def Let_def)

lemma lower_char_digit: "is_digit c \<Longrightarrow> lower_char c = c"
  by (auto simp: is_digit_def lower_char_def Let_def)

lemma letter_facts:
  "\<not> is_space (CHR ''a'')" "\<not> is_space (CHR ''n'')" "\<not> is_space (CHR ''d'')" "\<not> is_space (CHR ''g'')"
  "\<not> is_digit (CHR ''a'')" "\<not> is_digit (CHR ''n'')"
  "lower_char (CHR ''+'') = CHR ''+''" "lower_char (CHR ''-'') = CHR ''-''"
  "lower_char (CHR ''.'') = CHR ''.''" "lower_char (CHR ''e'') = CHR ''e''"
  "lower_char (CHR ''E'') = CHR ''e''"
  by code_simp+

lemma dropWhile_rev_last: "xs \<noteq> [] \<Longrightarrow> \<not> P (last xs) \<Longrightarrow> dropWhile P (rev xs) = rev xs"
  by (cases xs rule: rev_cases) simp_all

lemma py_float_word:
  assumes t: "t = a # r" and l: "lower_char a = CHR ''a'' \<or> lower_char a = CHR ''n''"
    and e: "lower_char (last t) = CHR ''d'' \<or> lower_char (last t) = CHR ''g''"
    and w: "lower t \<noteq> ''inf''" "lower t \<noteq> ''infinity''" "lower t \<noteq> ''nan''"
  shows "py_float t = None"
proof -
  have a: "\<not> is_space a" "\<not> is_digit a" "a \<noteq> CHR ''+''" "a \<noteq> CHR ''-''" "a \<noteq> CHR ''.''"
    "\<not> is_exp_mark a"
    using l lower_char_space[of a] lower_char_digit[of a]
    by (auto simp: letter_facts is_exp_mark_def)
  have z: "\<not> is_space (last t)"
  proof
    assume s: "is_space (last t)"
    from lower_char_space[OF s] e have "last t = CHR ''d'' \<or> last t = CHR ''g''" by simp
    with s show False by (auto simp: letter_facts)
  qed
  have "dropWhile is_space t = t" using a t by simp
  moreover have "dropWhile is_space (rev t) = rev t"
    using z t by (intro dropWhile_rev_last) simp_all
  ultimately have st: "strip t = t" by (simp add: strip_def)
  have sg: "split_sign t = (False, t)" using a t by (simp add: split_sign_def)
  have m: "mantissa (takeWhile (\<lambda>c. \<not> is_exp_mark c) t) = None"
    using a t by (simp add: mantissa_def Let_def digit_part_nondigit)
  have "float_number t = None" using m by (simp add: float_number_def Let_def)
  then show ?thesis using st sg w by (simp add: py_float_def)
qed

lemma aligned_not_float:
  assumes "lower t = ''aligned'' \<or> lower t = ''nonspinning''"
  shows "py_float t = None"
proof -
  from assms obtain a r where t: "t = a # r" by (cases t) (auto simp: lower_def)
  have l: "lower_char a = CHR ''a'' \<or> lower_char a = CHR ''n''"
    using assms t by (auto simp: lower_def)
  have "last (lower t) = lower_char (last t)" using t by (simp add: lower_def last_map)
  then have e: "lower_char (last t) = CHR ''d'' \<or> lower_char (last t) = CHR ''g''"
    using assms by auto
  show ?thesis by (rule py_float_word[OF t l e]) (use assms in auto)
qed

lemma zero_missing_spins_mono:
  "zero_missing_spins xys opts = Inr o' \<Longrightarrow>
   map_of o' k = map_of opts k \<or> (map_of opts k = None \<and> map_of o' k = Some (Num (Fin 0)))"
proof (induction xys arbitrary: opts)
  case Nil
  then show ?case by simp
next
  case (Cons xy xys)
  show ?case
  proof (cases "map_of opts xy = None")
    case False
    then have "zero_missing_spins (xy # xys) opts = zero_missing_spins xys opts" by auto
    then show ?thesis using Cons.IH[of opts] Cons.prems by simp
  next
    case True
    then obtain b where b: "system_type_aligned opts = Inr b"
      using Cons.prems(1) by (cases "system_type_aligned opts") (auto simp: bind_def)
    then have "zero_missing_spins xys (if b then AList.update xy (Num (Fin 0)) opts else opts) = Inr o'"
      using Cons.prems(1) True by (simp add: bind_def)
    from Cons.IH[OF this] True show ?thesis by (auto simp: map_of_update split: if_splits)
  qed
qed

lemma spin_completion_mono:
  "spin_completion bs opts = Inr o' \<Longrightarrow>
   map_of o' k = map_of opts k \<or> (map_of opts k = None \<and> map_of o' k = Some (Num (Fin 0)))"
proof (induction bs arbitrary: opts)
  case Nil
  then show ?case by simp
next
  case (Cons b bs)
  obtain z xys where b: "b = (z, xys)" by (cases b)
  from Cons.prems(1) obtain o1 where o1: "spin_block z xys opts = Inr o1" "spin_completion bs o1 = Inr o'"
    unfolding b by (cases "spin_block z xys opts") (auto simp: bind_def)
  have "map_of o1 k = map_of opts k \<or> (map_of opts k = None \<and> map_of o1 k = Some (Num (Fin 0)))"
    using o1(1) zero_missing_spins_mono[of xys opts o1 k]
    by (auto simp: spin_block_def split: if_splits)
  then show ?case using Cons.IH[OF o1(2)] by auto
qed

lemma spin_block_ok:
  assumes "system_type_aligned opts = Inr b" "''system-type'' \<notin> set xys"
  shows "\<exists>o'. spin_block z xys opts = Inr o' \<and> system_type_aligned o' = Inr b \<and>
           (b \<and> map_of opts z \<noteq> None \<longrightarrow> (\<forall>x\<in>set xys. map_of o' x \<noteq> None))"
proof (cases "map_of opts z = None")
  case True
  then show ?thesis using assms by (simp add: spin_block_def)
next
  case False
  from zero_missing_spins_ok[OF assms] obtain o' where
    "zero_missing_spins xys opts = Inr o'" "system_type_aligned o' = Inr b"
    "\<forall>k. map_of o' k = (if b \<and> k \<in> set xys \<and> map_of opts k = None then Some (Num (Fin 0)) else map_of opts k)"
    by blast
  then show ?thesis using False by (auto simp: spin_block_def)
qed

lemma spin_completion_ok:
  assumes "system_type_aligned opts = Inr b" "''system-type'' \<notin> \<Union> (set ` snd ` set bs)"
  shows "\<exists>o'. spin_completion bs opts = Inr o' \<and>
           (b \<longrightarrow> (\<forall>(z, xys)\<in>set bs. map_of opts z \<noteq> None \<longrightarrow> (\<forall>x\<in>set xys. map_of o' x \<noteq> None)))"
  using assms
proof (induction bs arbitrary: opts)
  case Nil
  then show ?case by simp
next
  case (Cons c bs)
  obtain z xys where c: "c = (z, xys)" by (cases c)
  have st: "''system-type'' \<notin> set xys" "''system-type'' \<notin> \<Union> (set ` snd ` set bs)"
    using Cons.prems(2) c by auto
  from spin_block_ok[OF Cons.prems(1) st(1), of z] obtain o1 where o1:
    "spin_block z xys opts = Inr o1" "system_type_aligned o1 = Inr b"
    "b \<and> map_of opts z \<noteq> None \<longrightarrow> (\<forall>x\<in>set xys. map_of o1 x \<noteq> None)"
    by blast
  from Cons.IH[OF o1(2) st(2)] obtain o' where o': "spin_completion bs o1 = Inr o'"
    "b \<longrightarrow> (\<forall>(z, xys)\<in>set bs. map_of o1 z \<noteq> None \<longrightarrow> (\<forall>x\<in>set xys. map_of o' x \<noteq> None))"
    by blast
  have m1: "map_of opts k \<noteq> None \<Longrightarrow> map_of o1 k \<noteq> None" for k
    using spin_block_frame[OF o1(1), of k] zero_missing_spins_mono[of xys opts o1 k] o1(1)
    by (auto simp: spin_block_def split: if_splits)
  have m2: "map_of o1 k \<noteq> None \<Longrightarrow> map_of o' k \<noteq> None" for k
    using spin_completion_mono[OF o'(1), of k] by auto
  have "spin_completion (c # bs) opts = Inr o'" using o1(1) o'(1) c by (simp add: bind_def)
  moreover have "b \<longrightarrow> (\<forall>(z, xys)\<in>set (c # bs). map_of opts z \<noteq> None \<longrightarrow> (\<forall>x\<in>set xys. map_of o' x \<noteq> None))"
    using o1(3) o'(2) m1 m2 c by fastforce
  ultimately show ?case by blast
qed

lemma lines_for_loop_value: "loop_value k nxt = None \<longleftrightarrow> lines_for k nxt = []"
  by (simp add: loop_value_def split: list.splits)

lemma last_value_loop_text:
  assumes "last_value k nxt = Some t" "py_float t = None" "k \<notin> set derived_fields"
  shows "loop_value k nxt = Some (Str t)"
  using assms by (auto simp: last_value_def loop_value_def split: list.splits)

lemma spin_keys:
  assumes "(z, xys) \<in> set spin_blocks" "x \<in> set xys"
  shows "x \<noteq> ''number-of-cycles-22''" "x \<noteq> ''number-of-orbits''" "x \<notin> set derived_fields"
  using assms by (auto simp: spin_blocks_def derived_fields_def)

lemma system_type_not_spin: "''system-type'' \<notin> \<Union> (set ` snd ` set spin_blocks)"
  by (simp add: spin_blocks_def)

lemma system_type_not_derived: "''system-type'' \<notin> set derived_fields"
  by (simp add: derived_fields_def)

text \<open>
  Claim C9. Take any of the four spin blocks, with \<open>z\<close> key \<open>z\<close> and a component key
  \<open>x\<close>. If some line carries \<open>z\<close>, no line carries \<open>x\<close>, and the value of the last
  \<open>system-type\<close> line is \<open>aligned\<close> or \<open>nonspinning\<close> in any letter case, then the parser
  returns a record in which \<open>x\<close> is \<open>0.0\<close>. The orbit/cycle fields must not be overwritten
  by text, since the parser would raise later otherwise.
\<close>

theorem spin_defaulting:
  assumes blk: "(z, xys) \<in> set spin_blocks" "x \<in> set xys"
    and z: "lines_for z (filter_lines raw) \<noteq> []"
    and x: "lines_for x (filter_lines raw) = []"
    and st: "last_value ''system-type'' (filter_lines raw) = Some t"
      "lower t = ''aligned'' \<or> lower t = ''nonspinning''"
    and num: "\<not> text_overwrites ''number-of-cycles-22'' (filter_lines raw)"
      "\<not> text_overwrites ''number-of-orbits'' (filter_lines raw)"
  shows "\<exists>opts. parse_metadata_txt raw = Inr (filter_lines raw, opts)
           \<and> map_of opts x = Some (Num (Fin 0))"
proof -
  let ?nxt = "filter_lines raw"
  let ?o0 = "parse_lines ?nxt"
  have "map_of ?o0 ''system-type'' = Some (Str t)"
    using last_value_loop_text[OF st(1) aligned_not_float[OF st(2)] system_type_not_derived]
    by (simp add: map_of_parse_lines)
  then have al: "system_type_aligned ?o0 = Inr True"
    using st(2) by (simp add: system_type_aligned_def dict_get_def bind_def)
  from spin_completion_ok[OF al system_type_not_spin] obtain o1 where o1:
    "spin_completion spin_blocks ?o0 = Inr o1"
    "\<forall>(z, xys)\<in>set spin_blocks. map_of ?o0 z \<noteq> None \<longrightarrow> (\<forall>x\<in>set xys. map_of o1 x \<noteq> None)"
    by auto
  have "map_of ?o0 z \<noteq> None" using z by (simp add: map_of_parse_lines lines_for_loop_value)
  then have "map_of o1 x \<noteq> None" using o1(2) blk by fastforce
  moreover have "map_of ?o0 x = None" using x by (simp add: map_of_parse_lines lines_for_loop_value)
  ultimately have x1: "map_of o1 x = Some (Num (Fin 0))"
    using spin_completion_mono[OF o1(1), of x] by auto
  have d: "map_of o1 j = loop_value j ?nxt" if "j \<in> set derived_fields" for j
    using spin_completion_frame[OF o1(1) derived_not_spin[OF that]]
    by (simp add: map_of_parse_lines)
  have c1: "map_of o1 ''number-of-cycles-22'' \<noteq> Some (Str u)" for u
    using d[OF cycles_orbits_derived(1)] loop_value_text[OF cycles_orbits_derived(1), of ?nxt] num(1)
    by auto
  have b1: "map_of o1 ''number-of-orbits'' \<noteq> Some (Str u)" for u
    using d[OF cycles_orbits_derived(2)] loop_value_text[OF cycles_orbits_derived(2), of ?nxt] num(2)
    by auto
  from derive_from_total[of o1 "''number-of-cycles-22''" div2 "''number-of-orbits''", OF c1]
  obtain o2 where o2: "cycles_to_orbits o1 = Inr o2" by (auto simp: cycles_to_orbits_def)
  then have d2: "derive_from ''number-of-cycles-22'' div2 ''number-of-orbits'' o1 = Inr o2"
    by (simp add: cycles_to_orbits_def)
  have b2: "map_of o2 ''number-of-orbits'' \<noteq> Some (Str u)" for u
    using derive_from_text_iff[OF d2 div2_Num, where j = "''number-of-orbits''"] b1 by auto
  from derive_from_total[of o2 "''number-of-orbits''" mul2 "''number-of-cycles-22''", OF b2]
  obtain o3 where o3: "orbits_to_cycles o2 = Inr o3" by (auto simp: orbits_to_cycles_def)
  then have d3: "derive_from ''number-of-orbits'' mul2 ''number-of-cycles-22'' o2 = Inr o3"
    by (simp add: orbits_to_cycles_def)
  have "map_of o3 x = Some (Num (Fin 0))"
    using derive_from_frame[OF d3, of x] derive_from_frame[OF d2, of x] spin_keys[OF blk] x1
    by simp
  then have "map_of (default_derived derived_fields o3) x = Some (Num (Fin 0))"
    by (rule default_derived_keeps)
  moreover have "parse_metadata_txt raw = Inr (?nxt, default_derived derived_fields o3)"
    using o1(1) o2 o3 by (simp add: parse_metadata_txt_def bind_def Let_def)
  ultimately show ?thesis by blast
qed

text \<open>The example of the claim, with the system type written \<open>Aligned\<close>.\<close>

theorem spin_defaulting_witness:
  "\<exists>opts. parse_metadata_txt [''relaxed-chi1z = 0.2'', ''system-type = Aligned'']
           = Inr ([''relaxed-chi1z = 0.2'', ''system-type = Aligned''], opts)
         \<and> map_of opts ''relaxed-chi1x'' = Some (Num (Fin 0))
         \<and> map_of opts ''relaxed-chi1y'' = Some (Num (Fin 0))"
proof -
  let ?r = "[''relaxed-chi1z = 0.2'', ''system-type = Aligned'']"
  have f: "filter_lines ?r = ?r" by code_simp
  have blk: "(''relaxed-chi1z'', [''relaxed-chi1x'', ''relaxed-chi1y'']) \<in> set spin_blocks"
    by (simp add: spin_blocks_def)
  have z: "lines_for ''relaxed-chi1z'' (filter_lines ?r) \<noteq> []" by code_simp
  have x: "lines_for ''relaxed-chi1x'' (filter_lines ?r) = []"
    "lines_for ''relaxed-chi1y'' (filter_lines ?r) = []" by code_simp+
  have st: "last_value ''system-type'' (filter_lines ?r) = Some ''Aligned''" by code_simp
  have lo: "lower ''Aligned'' = ''aligned'' \<or> lower ''Aligned'' = ''nonspinning''" by code_simp
  have num: "\<not> text_overwrites ''number-of-cycles-22'' (filter_lines ?r)"
    "\<not> text_overwrites ''number-of-orbits'' (filter_lines ?r)" by code_simp+
  from spin_defaulting[OF blk _ z x(1) st lo num] spin_defaulting[OF blk _ z x(2) st lo num]
  show ?thesis unfolding f by auto
qed

section \<open>Properties of the catalog, the cache and the crawl\<close>

subsection \<open>Path accessors\<close>

text \<open>
  Claim C10. For a known simulation whose three computed local files do not exist,
  \<open>metadata_filepath_from_simname\<close> raises a RuntimeError, \<open>psi4_filepath_from_simname\<close>
  returns the empty string, and \<open>waveform_filepath_from_simname\<close> returns the computed
  path.
\<close>

theorem path_accessors_absent_file:
  assumes "map_of simulations (Str sim_name) = Some row"
    and "map_of row ''metadata_location'' = Some (Str pm)" "\<not> path_exists s pm"
    and "map_of row ''waveform_data_location'' = Some (Str pw)" "\<not> path_exists s pw"
    and "map_of row ''psi4_data_location'' = Some (Str pp)" "\<not> path_exists s pp"
  shows "metadata_filepath_from_simname simulations s sim_name
           = Inl (RuntimeError (''Could not resolve path for '' @ sim_name
                                  @ ''..best calculated path = '' @ pm))
       \<and> psi4_filepath_from_simname simulations s sim_name = Inr []
       \<and> waveform_filepath_from_simname simulations s sim_name = Inr pw"
  using assms
  by (simp add: metadata_filepath_from_simname_def psi4_filepath_from_simname_def
      waveform_filepath_from_simname_def located_def get_metadata_def dict_get_def bind_def)

text \<open>A catalog with one simulation, on a disk without files.\<close>

theorem path_accessors_absent_file_witness:
  "metadata_filepath_from_simname
     [(Str ''RIT:BBH:0001-n100-id0'',
       [(''metadata_location'', Str ''/c/metadata/m.txt''),
        (''waveform_data_location'', Str ''/c/data/w.h5''),
        (''psi4_data_location'', Str ''/c/data/p.tar.gz'')])] empty_state ''RIT:BBH:0001-n100-id0''
     = Inl (RuntimeError
         ''Could not resolve path for RIT:BBH:0001-n100-id0..best calculated path = /c/metadata/m.txt'')
   \<and> psi4_filepath_from_simname
     [(Str ''RIT:BBH:0001-n100-id0'',
       [(''metadata_location'', Str ''/c/metadata/m.txt''),
        (''waveform_data_location'', Str ''/c/data/w.h5''),
        (''psi4_data_location'', Str ''/c/data/p.tar.gz'')])] empty_state ''RIT:BBH:0001-n100-id0''
     = Inr []
   \<and> waveform_filepath_from_simname
     [(Str ''RIT:BBH:0001-n100-id0'',
       [(''metadata_location'', Str ''/c/metadata/m.txt''),
        (''waveform_data_location'', Str ''/c/data/w.h5''),
        (''psi4_data_location'', Str ''/c/data/p.tar.gz'')])] empty_state ''RIT:BBH:0001-n100-id0''
     = Inr ''/c/data/w.h5''"
proof -
  let ?row = "[(''metadata_location'', Str ''/c/metadata/m.txt''),
        (''waveform_data_location'', Str ''/c/data/w.h5''),
        (''psi4_data_location'', Str ''/c/data/p.tar.gz'')]"
  have e: "\<not> path_exists empty_state p" for p
    by (simp add: path_exists_def empty_state_def)
  have "map_of [(Str ''RIT:BBH:0001-n100-id0'', ?row)] (Str ''RIT:BBH:0001-n100-id0'') = Some ?row"
    by simp
  from path_accessors_absent_file[OF this _ e _ e _ e, of "''/c/metadata/m.txt''" "''/c/data/w.h5''" "''/c/data/p.tar.gz''"]
  show ?thesis by simp
qed

subsection \<open>Lookup order in the cache directory\<close>

text \<open>
  Claim C5 where both families have a file for index 1. \<open>simname_from_cache\<close> answers
  with the file of the first tag, \<open>metadata_filename_from_cache\<close> with the file of the
  second tag, and so the auxiliary-field name taken from the cache is the eccentric one.
  Without a matching file both return the empty string.
\<close>

theorem cache_lookup_both_families:
  "metadata_filename_from_cache demo_helper two_family_state 1
     = ''/c/metadata/RIT:eBBH:0001-n100-ecc_Metadata.txt''
   \<and> simname_from_cache demo_helper two_family_state 1 = ''RIT:BBH:0001-n100-id0''
   \<and> psi4_filename_from_cache demo_helper two_family_state 1
     = Inr ''ExtrapPsi4_RIT-eBBH-0001-n100-ecc.tar.gz''
   \<and> metadata_filename_from_cache demo_helper two_family_state 2 = []
   \<and> simname_from_cache demo_helper two_family_state 2 = []"
  by code_simp

text \<open>In general: the last tag with a match wins in the one, the first in the other.\<close>

lemma metadata_filename_from_cache_last_tag:
  assumes "poss_files h s (''RIT:eBBH:'' @ fmt_04d idx) = p # ps"
  shows "metadata_filename_from_cache h s idx = p"
  using assms by (simp add: metadata_filename_from_cache_def simtags_def)

lemma simname_from_cache_first_tag:
  assumes "poss_files h s (''RIT:BBH:'' @ fmt_04d idx) = p # ps"
  shows "simname_from_cache h s idx = simname_from_metadata_filename (basename p)"
  using assms by (simp add: simname_from_cache_def simtags_def)

subsection \<open>The completeness gate of \<open>load\<close>\<close>

lemma metadata_from_cache_no_files: "files s = [] \<Longrightarrow> metadata_from_cache h s idx = Inr []"
  by (simp add: metadata_from_cache_def simtags_def poss_files_def glob_star_def)

lemma refresh_loop_no_files:
  "files s = [] \<Longrightarrow> refresh_loop h s idxs (Some []) = Inr (Some [])"
  by (induction idxs) (simp_all add: metadata_from_cache_no_files bind_def)

lemma refresh_no_files:
  assumes "files s = []" "1 \<le> n"
  shows "refresh_metadata_df_on_disk h s n = Inr ([], s\<lparr>csv := Some [], metadata := []\<rparr>)"
proof -
  have "[1..n] = 1 # [2..n]" using assms(2) by (simp add: upto_rec1)
  then show ?thesis
    using assms(1)
    by (simp add: refresh_metadata_df_on_disk_def metadata_from_cache_no_files
        refresh_loop_no_files bind_def)
qed

lemma refresh_result_state:
  assumes "refresh_metadata_df_on_disk h s n = Inr (df, s1)"
  shows "s1 = s\<lparr>csv := Some df, metadata := df\<rparr>"
  using assms
  by (auto simp: refresh_metadata_df_on_disk_def bind_def split: sum.splits option.splits)

lemma load_after_refresh:
  assumes "read_metadata_df_from_disk s = (df0, s0)"
    and "length df0 = 0 \<or> incomplete f n df0"
    and "refresh_metadata_df_on_disk (h\<lparr>use_cache := True\<rparr>) s0 n = Inr (df1, s1)"
    and "incomplete f n df1"
  shows "load h s download n f =
           bind (if download
                 then download_metadata_for_catalog (h\<lparr>use_cache := True\<rparr>) s1 n [] (- 1)
                 else Inl (ValueError (''Catalog not found in '' @ metadata_dir h
                                         @ ''. Please set `download=True`'')))
             (\<lambda>(df2, s2). bind (simulations_of df2 []) (\<lambda>simulations. Inr (simulations, s2)))"
  using assms by (auto simp: load_def Let_def bind_def)

lemma load_short_without_download:
  assumes "read_metadata_df_from_disk s = (df0, s0)"
    and "length df0 = 0 \<or> incomplete f n df0"
    and "refresh_metadata_df_on_disk (h\<lparr>use_cache := True\<rparr>) s0 n = Inr (df1, s1)"
    and "incomplete f n df1"
  shows "load h s False n f
           = Inl (ValueError (''Catalog not found in '' @ metadata_dir h
                                @ ''. Please set `download=True`''))"
  using load_after_refresh[OF assms, of False] by (simp add: bind_def)

lemma gate_70: "float_mul (to_double (7 / 10)) (to_double 100) = 70"
  by code_simp

lemma demo_incomplete_60:
  "incomplete (to_double (7 / 10)) 100 (replicate 60 r)" "incomplete (to_double (7 / 10)) 100 []"
  by (simp_all add: incomplete_def gate_70)

lemma demo_read_60:
  "read_metadata_df_from_disk (snapshot_state 60)
     = (replicate 60 [(''simulation_name'', Str ''RIT:BBH:0101-n100-id0'')],
        (snapshot_state 60)\<lparr>metadata := replicate 60 [(''simulation_name'', Str ''RIT:BBH:0101-n100-id0'')]\<rparr>)"
  by (simp add: read_metadata_df_from_disk_def snapshot_state_def Let_def)

lemma demo_refresh_60:
  "refresh_metadata_df_on_disk (demo_helper\<lparr>use_cache := True\<rparr>)
     ((snapshot_state 60)\<lparr>metadata := replicate 60 [(''simulation_name'', Str ''RIT:BBH:0101-n100-id0'')]\<rparr>) 100
   = Inr ([], (snapshot_state 60)\<lparr>csv := Some [], metadata := []\<rparr>)"
  by (subst refresh_no_files) (simp_all add: snapshot_state_def empty_state_def)

lemma gate_3: "float_mul (to_double (7 / 10)) (to_double 3) = 1182194902184755 / 562949953421312"
  by code_simp

lemma gate_4: "float_mul (to_double (7 / 10)) (to_double 4) = 3152519739159347 / 1125899906842624"
  by code_simp

lemma demo_read_two_index:
  "read_metadata_df_from_disk two_index_state = ([], two_index_state)"
  by (simp add: read_metadata_df_from_disk_def two_index_state_def empty_state_def Let_def)

text \<open>
  The product is a float product: 55 rows are fewer than \<open>0.55 * 100\<close>, which is
  \<open>55.00000000000001\<close>.
\<close>

lemma gate_rounds_as_float:
  "incomplete (to_double (55 / 100)) 100 (replicate 55 r)"
  "\<not> rat_of_nat (length (replicate 55 r)) < (55 / 100) * rat_of_int 100"
proof -
  have "float_mul (to_double (55 / 100)) (to_double 100) = 7740561859543041 / 140737488355328"
    by code_simp
  then show "incomplete (to_double (55 / 100)) 100 (replicate 55 r)"
    by (simp add: incomplete_def)
  show "\<not> rat_of_nat (length (replicate 55 r)) < (55 / 100) * rat_of_int 100"
    by simp
qed

text \<open>
  Claim C3, as the code has it. When the snapshot read from disk is empty or holds fewer
  rows than the float product of the fraction and \<open>num_sims_to_crawl\<close>, and the table
  refreshed from the cache still holds fewer, \<open>load\<close> without \<open>download\<close> raises a
  ValueError whose message names the metadata directory and asks for \<open>download=True\<close>.
  With \<open>download\<close> it calls \<open>download_metadata_for_catalog\<close> on the refreshed snapshot:
  the crawl over the indices \<open>1..num_sims_to_crawl\<close> runs only when the refreshed table
  has fewer than \<open>num_sims_to_crawl - 1\<close> rows; with at least that many rows the first
  \<open>num_sims_to_crawl - 1\<close> of them make the catalog and the state stays as the refresh
  left it.
\<close>

theorem load_incomplete_snapshot:
  assumes "read_metadata_df_from_disk s = (df0, s0)"
    and "length df0 = 0 \<or> incomplete f n df0"
    and "refresh_metadata_df_on_disk (h\<lparr>use_cache := True\<rparr>) s0 n = Inr (df1, s1)"
    and "incomplete f n df1"
  shows "load h s False n f
           = Inl (ValueError (''Catalog not found in '' @ metadata_dir h
                                @ ''. Please set `download=True`''))
       \<and> (int (length df1) < n - 1 \<longrightarrow>
            load h s True n f
              = bind (crawl_loop (h\<lparr>use_cache := True\<rparr>) (possible_res h) (max_id_val h)
                        [1..n] df1 s1)
                  (\<lambda>(sims, s'). bind (simulations_of (metadata s') [])
                                    (\<lambda>simulations. Inr (simulations, s'))))
       \<and> (n - 1 \<le> int (length df1) \<longrightarrow>
            load h s True n f
              = bind (simulations_of (iloc_to (n - 1) df1) [])
                  (\<lambda>simulations. Inr (simulations, s1)))"
proof -
  have s1: "s1 = s0\<lparr>csv := Some df1, metadata := df1\<rparr>"
    by (rule refresh_result_state[OF assms(3)])
  then have c: "csv s1 = Some df1" "s1\<lparr>metadata := df1\<rparr> = s1" by simp_all
  note l = load_after_refresh[OF assms]
  have a: "load h s False n f
           = Inl (ValueError (''Catalog not found in '' @ metadata_dir h
                                @ ''. Please set `download=True`''))"
    using l[of False] by (simp add: bind_def)
  have b: "load h s True n f
              = bind (crawl_loop (h\<lparr>use_cache := True\<rparr>) (possible_res h) (max_id_val h)
                        [1..n] df1 s1)
                  (\<lambda>(sims, s'). bind (simulations_of (metadata s') [])
                                    (\<lambda>simulations. Inr (simulations, s')))"
    if "int (length df1) < n - 1"
    using that l[of True] c
    by (auto simp: download_metadata_for_catalog_def Let_def bind_def split: sum.splits)
  have d: "load h s True n f
              = bind (simulations_of (iloc_to (n - 1) df1) [])
                  (\<lambda>simulations. Inr (simulations, s1))"
    if "n - 1 \<le> int (length df1)"
    using that l[of True] c
    by (simp add: download_metadata_for_catalog_def Let_def bind_def)
  show ?thesis using a b d by blast
qed

text \<open>
  A cache with two metadata files and fraction 0.7. For three simulations the two rows are
  fewer than 2.1: without \<open>download\<close> the error, with \<open>download\<close> the two rows and an
  empty network log. For four simulations the crawl runs and probes the archive sixteen
  times for the indices 3 and 4.
\<close>

theorem load_incomplete_snapshot_witness:
  "load demo_helper two_index_state False 3 (to_double (7 / 10))
     = Inl (ValueError ''Catalog not found in /c/metadata. Please set `download=True`'')
   \<and> (case load demo_helper two_index_state True 3 (to_double (7 / 10)) of
        Inl e \<Rightarrow> False
      | Inr (simulations, s') \<Rightarrow>
          map fst simulations = [Str ''RIT:BBH:0001-n100-id0'', Str ''RIT:BBH:0002-n100-id0'']
          \<and> net_log s' = [])
   \<and> (case load demo_helper two_index_state True 4 (to_double (7 / 10)) of
        Inl e \<Rightarrow> False
      | Inr (simulations, s') \<Rightarrow>
          map fst simulations = [Str ''RIT:BBH:0001-n100-id0'', Str ''RIT:BBH:0002-n100-id0'']
          \<and> length (net_log s') = 16)"
proof -
  have m: "metadata_dir demo_helper = ''/c/metadata''"
    and p: "possible_res demo_helper = [100, 200]" "max_id_val demo_helper = 2"
    by (simp_all add: demo_helper_def)
  have e3: "case refresh_metadata_df_on_disk (demo_helper\<lparr>use_cache := True\<rparr>) two_index_state 3 of
              Inl e \<Rightarrow> False
            | Inr (t, s1) \<Rightarrow>
                length t = 2
                \<and> (case bind (simulations_of (iloc_to (3 - 1) t) [])
                               (\<lambda>simulations. Inr (simulations, s1)) of
                       Inl e \<Rightarrow> False
                     | Inr (simulations, s') \<Rightarrow>
                         map fst simulations
                           = [Str ''RIT:BBH:0001-n100-id0'', Str ''RIT:BBH:0002-n100-id0'']
                         \<and> net_log s' = [])"
    by code_simp
  then obtain df3 s3 where
    r3: "refresh_metadata_df_on_disk (demo_helper\<lparr>use_cache := True\<rparr>) two_index_state 3
           = Inr (df3, s3)"
    by (cases "refresh_metadata_df_on_disk (demo_helper\<lparr>use_cache := True\<rparr>) two_index_state 3") auto
  have q3: "length df3 = 2
    \<and> (case bind (simulations_of (iloc_to (3 - 1) df3) [])
                    (\<lambda>simulations. Inr (simulations, s3)) of
               Inl e \<Rightarrow> False
             | Inr (simulations, s') \<Rightarrow>
                 map fst simulations
                   = [Str ''RIT:BBH:0001-n100-id0'', Str ''RIT:BBH:0002-n100-id0'']
                 \<and> net_log s' = [])"
    using e3 by (simp only: r3 sum.case prod.case)
  note l3 = q3[THEN conjunct1] and o3 = q3[THEN conjunct2]
  have g3: "incomplete (to_double (7 / 10)) 3 df3"
    using l3 by (simp add: incomplete_def gate_3)
  note t3 = load_incomplete_snapshot[OF demo_read_two_index _ r3 g3]
  have w1: "load demo_helper two_index_state False 3 (to_double (7 / 10))
     = Inl (ValueError ''Catalog not found in /c/metadata. Please set `download=True`'')"
    using t3 by (simp add: m)
  have w2: "case load demo_helper two_index_state True 3 (to_double (7 / 10)) of
        Inl e \<Rightarrow> False
      | Inr (simulations, s') \<Rightarrow>
          map fst simulations = [Str ''RIT:BBH:0001-n100-id0'', Str ''RIT:BBH:0002-n100-id0'']
          \<and> net_log s' = []"
    using t3 l3 o3 by simp
  have e4: "case refresh_metadata_df_on_disk (demo_helper\<lparr>use_cache := True\<rparr>) two_index_state 4 of
              Inl e \<Rightarrow> False
            | Inr (t, s1) \<Rightarrow>
                length t = 2
                \<and> (case bind (crawl_loop (demo_helper\<lparr>use_cache := True\<rparr>) [100, 200] 2
                                 [1..4] t s1)
                            (\<lambda>(sims, s'). bind (simulations_of (metadata s') [])
                                              (\<lambda>simulations. Inr (simulations, s'))) of
                       Inl e \<Rightarrow> False
                     | Inr (simulations, s') \<Rightarrow>
                         map fst simulations
                           = [Str ''RIT:BBH:0001-n100-id0'', Str ''RIT:BBH:0002-n100-id0'']
                         \<and> length (net_log s') = 16)"
    by code_simp
  then obtain df4 s4 where
    r4: "refresh_metadata_df_on_disk (demo_helper\<lparr>use_cache := True\<rparr>) two_index_state 4
           = Inr (df4, s4)"
    by (cases "refresh_metadata_df_on_disk (demo_helper\<lparr>use_cache := True\<rparr>) two_index_state 4") auto
  have q4: "length df4 = 2
    \<and> (case bind (crawl_loop (demo_helper\<lparr>use_cache := True\<rparr>) [100, 200] 2
                          [1..4] df4 s4)
                    (\<lambda>(sims, s'). bind (simulations_of (metadata s') [])
                                      (\<lambda>simulations. Inr (simulations, s'))) of
               Inl e \<Rightarrow> False
             | Inr (simulations, s') \<Rightarrow>
                 map fst simulations
                   = [Str ''RIT:BBH:0001-n100-id0'', Str ''RIT:BBH:0002-n100-id0'']
                 \<and> length (net_log s') = 16)"
    using e4 by (simp only: r4 sum.case prod.case)
  note l4 = q4[THEN conjunct1] and o4 = q4[THEN conjunct2]
  have g4: "incomplete (to_double (7 / 10)) 4 df4"
    using l4 by (simp add: incomplete_def gate_4)
  note t4 = load_incomplete_snapshot[OF demo_read_two_index _ r4 g4]
  have w3: "case load demo_helper two_index_state True 4 (to_double (7 / 10)) of
        Inl e \<Rightarrow> False
      | Inr (simulations, s') \<Rightarrow>
          map fst simulations = [Str ''RIT:BBH:0001-n100-id0'', Str ''RIT:BBH:0002-n100-id0'']
          \<and> length (net_log s') = 16"
    using t4 l4 o4 by (simp add: p)
  show ?thesis using w1 w2 w3 by simp
qed

text \<open>
  Sixty rows in the snapshot, one hundred simulations, fraction 0.7: the message of the
  error has no digit in it, so it names neither the sixty rows found nor the seventy
  required.
\<close>

theorem load_error_message_counterexample:
  "load demo_helper (snapshot_state 60) False 100 (to_double (7 / 10))
     = Inl (ValueError ''Catalog not found in /c/metadata. Please set `download=True`'')
   \<and> \<not> list_ex is_digit ''Catalog not found in /c/metadata. Please set `download=True`''"
proof -
  have m: "metadata_dir demo_helper = ''/c/metadata''" by (simp add: demo_helper_def)
  have "load demo_helper (snapshot_state 60) False 100 (to_double (7 / 10))
     = Inl (ValueError ''Catalog not found in /c/metadata. Please set `download=True`'')"
    using load_short_without_download[OF demo_read_60 _ demo_refresh_60 demo_incomplete_60(2)]
      demo_incomplete_60(1)
    by (simp add: m)
  moreover have "\<not> list_ex is_digit ''Catalog not found in /c/metadata. Please set `download=True`''"
    by code_simp
  ultimately show ?thesis by simp
qed

subsection \<open>The short cut of the crawl\<close>

text \<open>
  Claim C6, as the code has it. With \<open>use_cache\<close> and a snapshot \<open>t\<close> on disk,
  \<open>download_metadata_for_catalog\<close> returns at once exactly when \<open>t\<close> has at least
  \<open>num_sims_to_crawl - 1\<close> rows. It then returns the first \<open>num_sims_to_crawl - 1\<close> rows and
  changes nothing but \<open>self.metadata\<close>: no file, no snapshot, no network activity. With
  fewer rows the crawl loop runs from the snapshot.
\<close>

theorem crawl_short_circuit:
  assumes "use_cache h" and "csv s = Some t"
  shows "(n - 1 \<le> int (length t) \<longrightarrow>
            download_metadata_for_catalog h s n pres max_id
              = Inr (iloc_to (n - 1) t, s\<lparr>metadata := t\<rparr>))
       \<and> (1 \<le> n \<and> n - 1 \<le> int (length t) \<longrightarrow> length (iloc_to (n - 1) t) = nat (n - 1))
       \<and> (int (length t) < n - 1 \<longrightarrow>
            download_metadata_for_catalog h s n pres max_id
              = bind (crawl_loop h (if length pres = 0 then possible_res h else pres)
                        (if max_id \<le> 0 then max_id_val h else max_id) [1..n] t
                        (s\<lparr>metadata := t\<rparr>))
                  (\<lambda>(sims, s'). Inr (metadata s', s')))"
  using assms by (auto simp: download_metadata_for_catalog_def Let_def iloc_to_def)

text \<open>Four rows in the snapshot and three simulations to crawl: two rows come back.\<close>

theorem crawl_short_circuit_witness:
  "download_metadata_for_catalog demo_helper (snapshot_state 4) 3 [] (- 1)
     = Inr (replicate 2 [(''simulation_name'', Str ''RIT:BBH:0101-n100-id0'')],
            (snapshot_state 4)\<lparr>metadata := replicate 4 [(''simulation_name'', Str ''RIT:BBH:0101-n100-id0'')]\<rparr>)
   \<and> net_log ((snapshot_state 4)\<lparr>metadata := replicate 4 [(''simulation_name'', Str ''RIT:BBH:0101-n100-id0'')]\<rparr>) = []"
proof -
  have u: "use_cache demo_helper" by (simp add: demo_helper_def)
  have c: "csv (snapshot_state 4) = Some (replicate 4 [(''simulation_name'', Str ''RIT:BBH:0101-n100-id0'')])"
    by (simp add: snapshot_state_def)
  have i: "iloc_to 2 (replicate 4 [(''simulation_name'', Str ''RIT:BBH:0101-n100-id0'')])
           = replicate 2 [(''simulation_name'', Str ''RIT:BBH:0101-n100-id0'')]"
    by (simp add: iloc_to_def)
  from crawl_short_circuit[OF u c, of 3 "[]" "- 1"] show ?thesis
    by (simp add: i snapshot_state_def empty_state_def)
qed

text \<open>
  Five rows are more than 0.7 of seven simulations, yet the crawl runs and probes the
  remote archive; and a snapshot of four rows is cut to two rows, not to three.
\<close>

theorem crawl_threshold_counterexample:
  "(7 / 10 :: rat) * 7 \<le> 5
   \<and> (case download_metadata_for_catalog demo_helper (snapshot_state 5) 7 [100] 1 of
        Inl e \<Rightarrow> False | Inr (t, s) \<Rightarrow> net_log s \<noteq> [])
   \<and> (case download_metadata_for_catalog demo_helper (snapshot_state 4) 3 [] (- 1) of
        Inl e \<Rightarrow> False | Inr (t, s) \<Rightarrow> length t = 2)"
  by code_simp

subsection \<open>Resolution preference of the remote search\<close>













text \<open>The misses add to the log only.\<close>

lemma on_web_net_log [simp]: "on_web (s\<lparr>net_log := l\<rparr>) h = on_web s h"
  by (rule ext) (simp add: on_web_def)

lemma hit_events_net_log [simp]: "hit_events h (s\<lparr>net_log := l\<rparr>) f = hit_events h s f"
  by (simp add: hit_events_def nonempty_file_def)

lemma probes_append [simp]: "probes h (xs @ ys) = probes h xs @ probes h ys"
  by (simp add: probes_def)


lemma probes_Cons [simp]: "probes h (f # fs) = Probe (url_of h f) # probes h fs"
  by (simp add: probes_def)









lemma candidates_Nil [simp]: "candidates idx res [] = []"
  by (simp add: candidates_def)










end
